theory Spec2Isabelle
  imports Complex_Main "HOL-Library.Word"
begin

section \<open>Data model of the path tracer\<close>

text \<open>
  The embedding follows \<^verbatim>\<open>Raytracer.cpp\<close>. The header \<^verbatim>\<open>Raytracer.h\<close> and the classes
  it declares (Vec3, Color, Material, Object, Scene, Sample, Pixel, the constants and the
  random number routine) are not among the sources; what the code needs of them is modelled
  below and marked as such.

  Numbers: every \<^verbatim>\<open>double\<close> and \<^verbatim>\<open>float\<close> of the source is read as the real number it
  stands for, so rounding, infinities and NaN are outside this model. The C++ \<^verbatim>\<open>int\<close> that
  carries the recursion depth is a 32-bit word compared through \<open>sint\<close>; its increment wraps
  around, which is what the usual two's-complement targets do where C++ leaves signed
  overflow undefined.
\<close>

datatype Vec3 = Vec3 (vx: real) (vy: real) (vz: real)

datatype Color = Color (red: real) (green: real) (blue: real)

text \<open>
  Modelled from the spec: the arithmetic of Vec3 and Color is declared in the missing header.
  Sums, differences and scalar multiples are componentwise; the product of two colours is
  componentwise; \<^verbatim>\<open>Color()\<close> is black (the spec calls it the zero colour).
\<close>

instantiation Vec3 :: "{zero, plus, minus, uminus, scaleR}"
begin
definition zero_Vec3 :: Vec3 where
  "zero_Vec3 = Vec3 0 0 0"
definition plus_Vec3 :: "Vec3 \<Rightarrow> Vec3 \<Rightarrow> Vec3" where
  "plus_Vec3 a b = Vec3 (vx a + vx b) (vy a + vy b) (vz a + vz b)"
definition minus_Vec3 :: "Vec3 \<Rightarrow> Vec3 \<Rightarrow> Vec3" where
  "minus_Vec3 a b = Vec3 (vx a - vx b) (vy a - vy b) (vz a - vz b)"
definition uminus_Vec3 :: "Vec3 \<Rightarrow> Vec3" where
  "uminus_Vec3 a = Vec3 (- vx a) (- vy a) (- vz a)"
definition scaleR_Vec3 :: "real \<Rightarrow> Vec3 \<Rightarrow> Vec3" where
  "scaleR_Vec3 k a = Vec3 (k * vx a) (k * vy a) (k * vz a)"
instance ..
end

instantiation Color :: "{zero, plus, times, scaleR}"
begin
definition zero_Color :: Color where
  "zero_Color = Color 0 0 0"
definition plus_Color :: "Color \<Rightarrow> Color \<Rightarrow> Color" where
  "plus_Color a b = Color (red a + red b) (green a + green b) (blue a + blue b)"
definition times_Color :: "Color \<Rightarrow> Color \<Rightarrow> Color" where
  "times_Color a b = Color (red a * red b) (green a * green b) (blue a * blue b)"
definition scaleR_Color :: "real \<Rightarrow> Color \<Rightarrow> Color" where
  "scaleR_Color k a = Color (k * red a) (k * green a) (k * blue a)"
instance ..
end

text \<open>Modelled from the spec: \<^verbatim>\<open>A * B\<close> on vectors is the dot product (\<^verbatim>\<open>N*L\<close>, \<^verbatim>\<open>R*V\<close>).\<close>

definition dot :: "Vec3 \<Rightarrow> Vec3 \<Rightarrow> real" where
  "dot a b = vx a * vx b + vy a * vy b + vz a * vz b"

definition Length :: "Vec3 \<Rightarrow> real" where
  "Length a = sqrt (dot a a)"

text \<open>
  Modelled from the spec: \<^verbatim>\<open>Unit\<close> divides a vector by its length. What the missing
  routine returns for the zero vector is not known (the spec warns of the zero-length
  normalisation); here the division of HOL gives the zero vector, and no theorem below
  depends on what is returned there.
\<close>

definition Unit :: "Vec3 \<Rightarrow> Vec3" where
  "Unit a = (1 / Length a) *\<^sub>R a"

text \<open>
  Modelled from the spec: \<^verbatim>\<open>Reflection(V, N)\<close> mirrors the incoming direction \<open>V\<close> at the
  plane with normal \<open>N\<close>. The convention is fixed by the source itself: the samplers call
  \<^verbatim>\<open>Reflection(-aux, aux_mig)\<close> to turn \<open>aux\<close> about the half vector, and Shade reflects the
  view direction, which points into the surface.
\<close>

definition Reflection :: "Vec3 \<Rightarrow> Vec3 \<Rightarrow> Vec3" where
  "Reflection v n = v - (2 * dot v n) *\<^sub>R n"

text \<open>
  Modelled from the spec: the cross product \<^verbatim>\<open>G ^ U\<close> and \<^verbatim>\<open>A / B\<close>, the part of \<open>A\<close>
  orthogonal to \<open>B\<close>, which cast_line uses to build the camera frame.
\<close>

definition cross :: "Vec3 \<Rightarrow> Vec3 \<Rightarrow> Vec3" where
  "cross a b = Vec3 (vy a * vz b - vz a * vy b) (vz a * vx b - vx a * vz b)
                    (vx a * vy b - vy a * vx b)"

definition orth :: "Vec3 \<Rightarrow> Vec3 \<Rightarrow> Vec3" where
  "orth a b = (if dot b b > 0 then a - (dot a b / dot b b) *\<^sub>R b else a)"

text \<open>Modelled from the spec: the constant \<^verbatim>\<open>Pi\<close> of the missing header is \<open>\<pi>\<close>.\<close>

definition Pi :: real where
  "Pi = pi"

text \<open>
  The constants \<^verbatim>\<open>Epsilon\<close> and \<^verbatim>\<open>Infinity\<close> are declared in the missing header too; their
  values are parameters of the model.
\<close>

record Params =
  Epsilon :: real
  Infinity :: real

record Material =
  m_Diffuse :: Color
  m_Specular :: Color
  m_Emission :: Color
  m_Phong_exp :: real
  Emitter :: bool

record Ray =
  origin :: Vec3
  direction :: Vec3
  no_emitters :: bool

record HitGeom =
  distance :: real
  point :: Vec3
  normal :: Vec3
  geom_origin :: Vec3

record HitInfo =
  geom :: HitGeom
  material :: Material

record Sample =
  sample_P :: Vec3
  sample_w :: real

subsection \<open>Random numbers\<close>

text \<open>
  Modelled from the spec: \<^verbatim>\<open>rand(a, b)\<close> is declared in the missing header. A run of the
  program is modelled against a given sequence of results of \<^verbatim>\<open>rand\<close>: each call returns
  the next element and advances the position. That the result lies between the two
  arguments is a hypothesis of the theorems that need it.
\<close>

record rng =
  draws :: "nat \<Rightarrow> real"
  pos :: nat

definition rand :: "real \<Rightarrow> real \<Rightarrow> rng \<Rightarrow> real \<times> rng" where
  "rand a b g = (draws g (pos g), g\<lparr>pos := Suc (pos g)\<rparr>)"

subsection \<open>Objects and scenes\<close>

text \<open>
  An object of the scene offers \<^verbatim>\<open>Intersect(ray, geom)\<close>, which returns a flag and may
  write into the geometry record it is given, \<^verbatim>\<open>GetSample(point, normal)\<close>, which may draw
  random numbers, and its material. The linked list \<^verbatim>\<open>scene.first\<close> is the list of objects;
  a pointer to an object is its position in that list, \<open>None\<close> is the null pointer.
\<close>

record Object =
  Intersect :: "Ray \<Rightarrow> HitGeom \<Rightarrow> bool \<times> HitGeom"
  GetSample :: "Vec3 \<Rightarrow> Vec3 \<Rightarrow> rng \<Rightarrow> Sample \<times> rng"
  obj_material :: Material

record Scene =
  objects :: "Object list"
  bgcolor :: Color

section \<open>Cast\<close>

text \<open>
  One turn of the loop of \<^verbatim>\<open>Cast\<close> for the object at position \<open>i\<close>. The test
  \<^verbatim>\<open>object != ignore && object->Intersect(...)\<close> short-circuits: the ignored object is not
  asked. The pair is the local \<^verbatim>\<open>hit\<close> and the record \<^verbatim>\<open>hitinfo\<close>.
\<close>

definition Cast_step :: "Ray \<Rightarrow> nat option \<Rightarrow> nat \<Rightarrow> Object \<Rightarrow> bool \<times> HitInfo \<Rightarrow> bool \<times> HitInfo" where
  "Cast_step ray ignore i object s =
     (if Some i \<noteq> ignore
      then (case Intersect object ray (geom (snd s)) of
              (True, g) \<Rightarrow> (True, \<lparr>geom = g, material = obj_material object\<rparr>)
            | (False, g) \<Rightarrow> (fst s, (snd s)\<lparr>geom := g\<rparr>))
      else s)"

fun Cast_loop :: "Ray \<Rightarrow> nat option \<Rightarrow> nat \<Rightarrow> Object list \<Rightarrow> bool \<times> HitInfo \<Rightarrow> bool \<times> HitInfo" where
  "Cast_loop ray ignore i [] s = s"
| "Cast_loop ray ignore i (object # rest) s =
     Cast_loop ray ignore (Suc i) rest (Cast_step ray ignore i object s)"

definition Cast :: "Ray \<Rightarrow> Scene \<Rightarrow> HitInfo \<Rightarrow> nat option \<Rightarrow> bool \<times> HitInfo" where
  "Cast ray scene hitinfo ignore = Cast_loop ray ignore 0 (objects scene) (False, hitinfo)"

text \<open>The state of \<^verbatim>\<open>Cast\<close> after its first \<open>k\<close> objects.\<close>

definition Cast_upto :: "nat \<Rightarrow> Ray \<Rightarrow> Scene \<Rightarrow> HitInfo \<Rightarrow> nat option \<Rightarrow> bool \<times> HitInfo" where
  "Cast_upto k ray scene hitinfo ignore =
     Cast_loop ray ignore 0 (take k (objects scene)) (False, hitinfo)"

text \<open>
  The collaborator contract of the comment in \<^verbatim>\<open>Cast\<close>: an intersector that answers true
  has written a strictly smaller distance.
\<close>

definition closer_only :: "Object \<Rightarrow> bool" where
  "closer_only object =
     (\<forall>ray g. fst (Intersect object ray g) \<longrightarrow> distance (snd (Intersect object ray g)) < distance g)"

section \<open>ToneMap\<close>

text \<open>
  Modelled from the spec: \<^verbatim>\<open>channel\<close>, declared in the missing header, is a byte (each
  channel in 0..255). The conversion \<^verbatim>\<open>(int)floor(x)\<close> of a double is defined in C++ only when
  the value fits an \<^verbatim>\<open>int\<close>; outside that range the targets differ, and the model returns no
  result. The conversion of the \<^verbatim>\<open>int\<close> to the byte keeps the low eight bits.
\<close>

record Pixel =
  pixel_r :: "8 word"
  pixel_g :: "8 word"
  pixel_b :: "8 word"

definition int_of_floor :: "real \<Rightarrow> int option" where
  "int_of_floor v = (if - (2 ^ 31) \<le> \<lfloor>v\<rfloor> \<and> \<lfloor>v\<rfloor> < 2 ^ 31 then Some \<lfloor>v\<rfloor> else None)"

definition to_channel :: "int \<Rightarrow> 8 word" where
  "to_channel v = word_of_int (if v \<ge> 255 then 255 else v)"

definition ToneMap :: "Color \<Rightarrow> Pixel option" where
  "ToneMap color =
     (case int_of_floor (256 * red color) of None \<Rightarrow> None | Some r \<Rightarrow>
       (case int_of_floor (256 * green color) of None \<Rightarrow> None | Some g \<Rightarrow>
         (case int_of_floor (256 * blue color) of None \<Rightarrow> None | Some b \<Rightarrow>
            Some \<lparr>pixel_r = to_channel r, pixel_g = to_channel g, pixel_b = to_channel b\<rparr>)))"

section \<open>Shade\<close>

subsection \<open>The Russian roulette loop\<close>

text \<open>
  \<^verbatim>\<open>while (posi >= 0 && russian)\<close>, where \<^verbatim>\<open>russian\<close> is never assigned after its
  initialisation to true. Each turn draws one number, so the position of the generator
  counts the turns. \<^verbatim>\<open>num_reb++\<close> is the wrapping increment of the 32-bit word.
\<close>

function russian_roulette :: "32 word \<Rightarrow> real \<Rightarrow> rng \<Rightarrow> 32 word \<times> rng" where
  "russian_roulette num_reb posi g =
     (if posi \<ge> 0
      then (let (alpha, g') = rand 0 99 g
            in if alpha > posi then russian_roulette num_reb (- 1) g'
               else russian_roulette (num_reb + 1) (posi - 15) g')
      else (num_reb, g))"
  by pat_completeness auto
termination
proof (relation "measure (\<lambda>(num_reb, posi, g). nat (\<lfloor>posi\<rfloor> + 2))")
  show "wf (measure (\<lambda>(num_reb :: 32 word, posi :: real, g :: rng). nat (\<lfloor>posi\<rfloor> + 2)))"
    by simp
next
  fix num_reb :: "32 word" and posi :: real and g :: rng and x xa
  assume "0 \<le> posi"
  then have "nat (\<lfloor>- 1 :: real\<rfloor> + 2) < nat (\<lfloor>posi\<rfloor> + 2)" by linarith
  then show "((num_reb, - 1, xa), num_reb, posi, g)
         \<in> measure (\<lambda>(num_reb, posi, g). nat (\<lfloor>posi\<rfloor> + 2))"
    by simp
next
  fix num_reb :: "32 word" and posi :: real and g :: rng and x xa
  assume "0 \<le> posi"
  then have "nat (\<lfloor>posi - 15\<rfloor> + 2) < nat (\<lfloor>posi\<rfloor> + 2)" by linarith
  then show "((num_reb + 1, posi - 15, xa), num_reb, posi, g)
         \<in> measure (\<lambda>(num_reb, posi, g). nat (\<lfloor>posi\<rfloor> + 2))"
    by simp
qed

declare russian_roulette.simps [simp del]

subsection \<open>Direct lighting\<close>

text \<open>
  The locals \<^verbatim>\<open>diffuse\<close>, \<^verbatim>\<open>specular\<close> and \<^verbatim>\<open>direct\<close> are declared before the loop over the
  objects and live across its turns.
\<close>

record Lighting =
  diffuse :: Color
  specular :: Color
  direct :: Color

text \<open>
  \<^verbatim>\<open>HitInfo vacio\<close> and \<^verbatim>\<open>HitInfo hitinfo\<close> are default-constructed and only their distance
  is assigned; the other fields are modelled as zero.
\<close>

definition fresh_hit :: "real \<Rightarrow> HitInfo" where
  "fresh_hit d =
     \<lparr>geom = \<lparr>distance = d, point = 0, normal = 0, geom_origin = 0\<rparr>,
      material = \<lparr>m_Diffuse = 0, m_Specular = 0, m_Emission = 0, m_Phong_exp = 0,
                  Emitter = False\<rparr>\<rparr>"

text \<open>
  One turn of the loop for the object at position \<open>i\<close>; \<^verbatim>\<open>cdirect\<close> is never assigned after
  its initialisation to true. \<^verbatim>\<open>pow(RV, e)\<close> is taken only for \<open>RV > 0\<close>, where it is \<open>powr\<close>.
\<close>

definition direct_step :: "HitInfo \<Rightarrow> Scene \<Rightarrow> Ray \<Rightarrow> Vec3 \<Rightarrow> nat \<Rightarrow> Object \<Rightarrow> Lighting \<times> rng \<Rightarrow> Lighting \<times> rng" where
  "direct_step hit scene shadows V i object s =
     (if Emitter (obj_material object)
      then (let (S, g') = GetSample object (point (geom hit)) (normal (geom hit)) (snd s);
                shadows' = shadows\<lparr>direction := Unit (sample_P S - point (geom hit))\<rparr>;
                vacio = fresh_hit (Length (sample_P S - point (geom hit)))
            in if fst (Cast shadows' scene vacio (Some i)) then (fst s, g')
               else (let N = normal (geom hit);
                         L = Unit (sample_P S - point (geom hit));
                         R = Reflection L N;
                         NL = (if dot N L < 0 then 0 else dot N L);
                         diffuse' = NL *\<^sub>R m_Diffuse (material hit);
                         RV = dot R V;
                         specular' = (if RV > 0 \<and> m_Phong_exp (material hit) > 0
                                      then (RV powr m_Phong_exp (material hit)) *\<^sub>R m_Specular (material hit)
                                      else specular (fst s));
                         irradiance = sample_w S *\<^sub>R m_Emission (obj_material object)
                     in (\<lparr>diffuse = diffuse', specular = specular',
                          direct = direct (fst s) + (diffuse' + specular') * irradiance\<rparr>, g')))
      else s)"

fun direct_loop :: "HitInfo \<Rightarrow> Scene \<Rightarrow> Ray \<Rightarrow> Vec3 \<Rightarrow> nat \<Rightarrow> Object list \<Rightarrow> Lighting \<times> rng \<Rightarrow> Lighting \<times> rng" where
  "direct_loop hit scene shadows V i [] s = s"
| "direct_loop hit scene shadows V i (object # rest) s =
     direct_loop hit scene shadows V (Suc i) rest (direct_step hit scene shadows V i object s)"

subsection \<open>The samplers\<close>

text \<open>
  The samplers are read over the reals like everything else. In the program the square root,
  the cosine, the sine and the sums and products around them are rounded to double precision,
  so a coordinate of the sampled direction that is 0 here can come out slightly above or
  slightly below 0 there: for \<open>N = (1, 0, 0)\<close> and the draws \<open>s = 1/4\<close>, \<open>t = 1\<close> the
  component of the direction along \<open>N\<close> is 0 over the reals and about \<open>- 1.2e-32\<close> in double
  precision. The sign of such a component is a property of the rounding, which this model
  does not have; no theorem below states the sign of a component of a sampled direction.
  The one run below that evaluates a sampler draws 0 and 0 with the normal \<open>(0, 0, 1)\<close>, where
  every operation is exact in double precision as well.
\<close>

definition SampleProjectedHemisphere :: "Vec3 \<Rightarrow> rng \<Rightarrow> Sample \<times> rng" where
  "SampleProjectedHemisphere N g =
     (let v = Vec3 0 0 1;
          (s_rand, g1) = rand 0 1 g;
          (t_rand, g2) = rand 0 1 g1;
          aux_x = sqrt t_rand * cos (2 * Pi * s_rand);
          aux_y = sqrt t_rand * sin (2 * Pi * s_rand);
          aux_z = 1 - aux_x\<^sup>2 - aux_y\<^sup>2;
          aux = Vec3 aux_x aux_y (if aux_z > 0 then sqrt aux_z else 0);
          aux_mig = Unit (v + N)
      in (\<lparr>sample_P = Reflection (- aux) aux_mig, sample_w = Pi\<rparr>, g2))"

text \<open>
  \<^verbatim>\<open>pow(s, e)\<close> is \<open>powr\<close> for the non-negative draws and positive exponents this is called
  with. The square root of \<^verbatim>\<open>final.P.z\<close> is taken without a clamp in the source.
\<close>

definition SampleSpecularLobe :: "Vec3 \<Rightarrow> real \<Rightarrow> rng \<Rightarrow> Sample \<times> rng" where
  "SampleSpecularLobe R phong_exp g =
     (let v = Vec3 0 0 1;
          (s, g1) = rand 0 1 g;
          (t, g2) = rand 0 1 g1;
          e = 2 / (phong_exp + 1);
          spri = sqrt (1 - s powr e);
          lobe_x = spri * cos (2 * Pi * t);
          lobe_y = spri * sin (2 * Pi * t);
          lobe = Vec3 lobe_x lobe_y (sqrt (1 - lobe_x\<^sup>2 - lobe_y\<^sup>2));
          aux_mig = (1 / Length (v + R)) *\<^sub>R (v + R)
      in (\<lparr>sample_P = Reflection (- lobe) aux_mig, sample_w = (2 * Pi) / (phong_exp + 2)\<rparr>, g2))"

subsection \<open>Shade and Trace\<close>

text \<open>
  The state of a run: the random number generator and a record of what happened. The
  record is ghost state: nothing reads it. It notes every call of \<^verbatim>\<open>Trace\<close> with its ray
  and depth, every time \<^verbatim>\<open>Trace\<close> answers black for an emitter seen by a ray with
  \<^verbatim>\<open>no_emitters\<close>, and every time \<^verbatim>\<open>Shade\<close> enters its specular indirect branch.
\<close>

datatype event = TraceCall Ray "32 word" | Suppressed Ray | SpecularBranch HitInfo

record state =
  gen :: rng
  events :: "event list"

definition log_event :: "event \<Rightarrow> state \<Rightarrow> state" where
  "log_event e st = st\<lparr>events := events st @ [e]\<rparr>"

text \<open>
  A step of a run answers a value, or \<open>None\<close> when a call of \<^verbatim>\<open>Trace\<close> inside it did not
  return within the recursion bound; it also gives the state reached. After the answer
  \<open>None\<close> nothing more is executed.
\<close>

definition and_then :: "'a option \<times> state \<Rightarrow> ('a \<Rightarrow> state \<Rightarrow> 'b option \<times> state) \<Rightarrow> 'b option \<times> state" where
  "and_then m k = (case m of (None, st) \<Rightarrow> (None, st) | (Some x, st) \<Rightarrow> k x st)"

type_synonym tracer = "Ray \<Rightarrow> Scene \<Rightarrow> 32 word \<Rightarrow> state \<Rightarrow> Color option \<times> state"

text \<open>
  The diffuse bounce of \<^verbatim>\<open>Shade\<close>: the ray \<^verbatim>\<open>rayo\<close> and the value of \<^verbatim>\<open>indirect_diff\<close>, which
  stays black unless \<^verbatim>\<open>u < contriD\<close>. The recursive calls of \<^verbatim>\<open>Trace\<close> go through the
  parameter \<open>trace\<close>.
\<close>

definition indirect_diffuse :: "Params \<Rightarrow> tracer \<Rightarrow> HitInfo \<Rightarrow> Scene \<Rightarrow> 32 word \<Rightarrow> real \<Rightarrow> real \<Rightarrow> Sample \<Rightarrow> state \<Rightarrow> Color option \<times> state" where
  "indirect_diffuse cfg trace hit scene num_reb u contriD S1 st =
     (let N = normal (geom hit);
          rayo = \<lparr>origin = point (geom hit) + Epsilon cfg *\<^sub>R N, direction = sample_P S1,
                  no_emitters = False\<rparr>
      in if u < contriD
         then and_then (trace rayo scene num_reb st)
                (\<lambda>c st'. (Some (((1 / Pi) *\<^sub>R (sample_w S1 *\<^sub>R m_Diffuse (material hit))) * c), st'))
         else (Some 0, st))"

text \<open>
  The specular bounce of \<^verbatim>\<open>Shade\<close>: the value of \<^verbatim>\<open>indirect_spec\<close>, which stays black unless
  the branch is taken. The condition \<^verbatim>\<open>contriD <= u < (contriD + contriS)\<close> is read as C++
  reads it: the truth value of \<^verbatim>\<open>contriD <= u\<close>, as 0 or 1, is compared with the sum.
\<close>

definition indirect_specular :: "Params \<Rightarrow> tracer \<Rightarrow> HitInfo \<Rightarrow> Scene \<Rightarrow> 32 word \<Rightarrow> real \<Rightarrow> real \<Rightarrow> real \<Rightarrow> Vec3 \<Rightarrow> state \<Rightarrow> Color option \<times> state" where
  "indirect_specular cfg trace hit scene num_reb u contriD contriS V st =
     (if m_Phong_exp (material hit) > 0
         \<and> (if contriD \<le> u then 1 else 0) < contriD + contriS
      then (let N = normal (geom hit);
                ref = Reflection V N;
                (S2, g2) = SampleSpecularLobe ref (m_Phong_exp (material hit)) (gen st);
                st1 = log_event (SpecularBranch hit) (st\<lparr>gen := g2\<rparr>);
                rayo1 = \<lparr>origin = point (geom hit) + Epsilon cfg *\<^sub>R N,
                         direction = sample_P S2, no_emitters = False\<rparr>
            in and_then (trace rayo1 scene num_reb st1)
                 (\<lambda>c st'. (Some ((((m_Phong_exp (material hit) + 2) / (2 * Pi)) *\<^sub>R
                                     (sample_w S2 *\<^sub>R m_Specular (material hit))) * c), st')))
      else (Some 0, st))"

text \<open>
  The indirect part of \<^verbatim>\<open>Shade\<close>, entered when \<^verbatim>\<open>(contriD + contriS) > u\<close>: the value of
  \<^verbatim>\<open>indirect\<close>.
\<close>

definition Shade_indirect :: "Params \<Rightarrow> tracer \<Rightarrow> HitInfo \<Rightarrow> Scene \<Rightarrow> 32 word \<Rightarrow> real \<Rightarrow> real \<Rightarrow> real \<Rightarrow> Vec3 \<Rightarrow> state \<Rightarrow> Color option \<times> state" where
  "Shade_indirect cfg trace hit scene num_reb u contriD contriS V st =
     (let (S1, g1) = SampleProjectedHemisphere (normal (geom hit)) (gen st)
      in and_then (indirect_diffuse cfg trace hit scene num_reb u contriD S1 (st\<lparr>gen := g1\<rparr>))
           (\<lambda>indirect_diff st2.
              and_then (indirect_specular cfg trace hit scene num_reb u contriD contriS V st2)
                (\<lambda>indirect_spec st3. (Some (indirect_diff + indirect_spec), st3))))"

text \<open>\<^verbatim>\<open>Shade\<close>, with the recursive calls of \<^verbatim>\<open>Trace\<close> as the parameter \<open>trace\<close>.\<close>

definition Shade_with :: "Params \<Rightarrow> tracer \<Rightarrow> HitInfo \<Rightarrow> Scene \<Rightarrow> 32 word \<Rightarrow> state \<Rightarrow> Color option \<times> state" where
  "Shade_with cfg trace hit scene max_tree_depth st =
     (if Emitter (material hit) then (Some (m_Diffuse (material hit)), st)
      else (let N = normal (geom hit);
                shadows = \<lparr>origin = point (geom hit) + Epsilon cfg *\<^sub>R N, direction = 0,
                           no_emitters = False\<rparr>;
                (num_reb, g1) = russian_roulette max_tree_depth 100 (gen st);
                (u, g2) = rand 0 1 g1;
                contriS = (blue (m_Specular (material hit)) + red (m_Specular (material hit))
                             + green (m_Specular (material hit))) / 3;
                contriD = (blue (m_Diffuse (material hit)) + red (m_Diffuse (material hit))
                             + green (m_Diffuse (material hit))) / 3;
                V = Unit (point (geom hit) - geom_origin (geom hit));
                (lit, g3) = direct_loop hit scene shadows V 0 (objects scene)
                              (\<lparr>diffuse = 0, specular = 0, direct = 0\<rparr>, g2)
            in and_then (if contriD + contriS > u
                         then Shade_indirect cfg trace hit scene num_reb u contriD contriS V
                                (st\<lparr>gen := g3\<rparr>)
                         else (Some 0, st\<lparr>gen := g3\<rparr>))
                 (\<lambda>indirect st'. (Some (direct lit + indirect), st'))))"

text \<open>
  \<^verbatim>\<open>Trace\<close>. The first argument bounds the nesting of the calls of \<^verbatim>\<open>Trace\<close>: the
  recursion of the source is not bounded by \<^verbatim>\<open>max_tree_depth\<close>, since \<^verbatim>\<open>Shade\<close> passes on the
  extended depth \<^verbatim>\<open>num_reb\<close>. The answer \<open>None\<close> says that the bound was reached; the state
  then holds what the run has recorded up to there.
\<close>

fun Trace :: "nat \<Rightarrow> Params \<Rightarrow> Ray \<Rightarrow> Scene \<Rightarrow> 32 word \<Rightarrow> state \<Rightarrow> Color option \<times> state" where
  "Trace 0 cfg ray scene max_tree_depth st = (None, log_event (TraceCall ray max_tree_depth) st)"
| "Trace (Suc n) cfg ray scene max_tree_depth st =
     (let st1 = log_event (TraceCall ray max_tree_depth) st;
          (hit, hitinfo) = Cast ray scene (fresh_hit (Infinity cfg)) None
      in if hit \<and> sint max_tree_depth > - 1
         then (if Emitter (material hitinfo) \<and> no_emitters ray
               then (Some 0, log_event (Suppressed ray) st1)
               else Shade_with cfg (Trace n cfg) hitinfo scene (max_tree_depth - 1) st1)
         else (Some (bgcolor scene), st1))"

definition Shade :: "nat \<Rightarrow> Params \<Rightarrow> HitInfo \<Rightarrow> Scene \<Rightarrow> 32 word \<Rightarrow> state \<Rightarrow> Color option \<times> state" where
  "Shade n cfg hit scene max_tree_depth st = Shade_with cfg (Trace n cfg) hit scene max_tree_depth st"

section \<open>cast_line\<close>

definition tree_depth :: "32 word" where
  "tree_depth = 1"

definition rays_pixel :: int where
  "rays_pixel = 50"

record Camera =
  eye :: Vec3
  lookat :: Vec3
  up :: Vec3
  vpdist :: real

record World =
  getCamera :: Camera
  getScene :: Scene

text \<open>
  The members of \<^verbatim>\<open>Raytracer\<close> that \<^verbatim>\<open>cast_line\<close> reads and writes. The image \<^verbatim>\<open>I\<close> is a
  function of row and column (the field \<open>image_I\<close>); printing and the writing of the file are left out.
\<close>

record Raytracer =
  resolutionX :: int
  resolutionY :: int
  currentLine :: int
  image_I :: "int \<Rightarrow> int \<Rightarrow> Pixel"
  isDone :: bool

text \<open>
  The multisampling loop \<^verbatim>\<open>for (n = 0; n < rays_pixel; n++)\<close>, by the number of turns left,
  on the locals \<^verbatim>\<open>ray\<close> and \<^verbatim>\<open>color\<close>. The two calls of \<^verbatim>\<open>rand\<close> in the direction are taken
  from left to right (C++ does not fix their order).
\<close>

fun sample_loop :: "nat \<Rightarrow> Params \<Rightarrow> Scene \<Rightarrow> Vec3 \<Rightarrow> Vec3 \<Rightarrow> Vec3 \<Rightarrow> int \<Rightarrow> int \<Rightarrow> nat \<Rightarrow> Ray \<Rightarrow> Color \<Rightarrow> state \<Rightarrow> (Ray \<times> Color) option \<times> state" where
  "sample_loop fuel cfg scn O_raster dR dU i line 0 ray color st = (Some (ray, color), st)"
| "sample_loop fuel cfg scn O_raster dR dU i line (Suc k) ray color st =
     (let (r1, g1) = rand 0 1 (gen st);
          (r2, g2) = rand 0 1 g1;
          ray' = ray\<lparr>direction :=
                   Unit (O_raster + (of_int i + r1 - 0.5) *\<^sub>R dR
                           - (of_int line + r2 - 0.5) *\<^sub>R dU)\<rparr>
      in and_then (Trace fuel cfg ray' scn tree_depth (st\<lparr>gen := g2\<rparr>))
           (\<lambda>c st'. sample_loop fuel cfg scn O_raster dR dU i line k ray' (color + c) st'))"

text \<open>
  One pixel of the raster line: the rays, the tone mapping of the mean and the reset of
  \<^verbatim>\<open>color\<close>. The run also ends, with the answer \<open>None\<close>, at a channel outside the range of
  \<^verbatim>\<open>int\<close>, where C++ leaves the conversion undefined.
\<close>

definition cast_pixel :: "nat \<Rightarrow> Params \<Rightarrow> Scene \<Rightarrow> Vec3 \<Rightarrow> Vec3 \<Rightarrow> Vec3 \<Rightarrow> int \<Rightarrow> Raytracer \<Rightarrow> Ray \<Rightarrow> Color \<Rightarrow> state \<Rightarrow> (Raytracer \<times> Ray \<times> Color) option \<times> state" where
  "cast_pixel fuel cfg scn O_raster dR dU i rt ray color st =
     and_then (if rays_pixel = 1
               then (let ray' = ray\<lparr>direction :=
                                  Unit (O_raster + of_int i *\<^sub>R dR
                                          - of_int (currentLine rt) *\<^sub>R dU)\<rparr>
                     in and_then (Trace fuel cfg ray' scn tree_depth st)
                          (\<lambda>c st'. (Some (ray', c), st')))
               else sample_loop fuel cfg scn O_raster dR dU i (currentLine rt)
                      (nat rays_pixel) ray color st)
       (\<lambda>(ray', color') st'.
          case ToneMap ((1 / of_int rays_pixel) *\<^sub>R color') of
            None \<Rightarrow> (None, st')
          | Some px \<Rightarrow>
              (Some (rt\<lparr>image_I := (image_I rt)
                           (resolutionY rt - currentLine rt - 1 :=
                              (image_I rt (resolutionY rt - currentLine rt - 1))(i := px))\<rparr>,
                     ray', 0), st'))"

fun pixel_loop :: "nat \<Rightarrow> Params \<Rightarrow> Scene \<Rightarrow> Vec3 \<Rightarrow> Vec3 \<Rightarrow> Vec3 \<Rightarrow> int list \<Rightarrow> Raytracer \<Rightarrow> Ray \<Rightarrow> Color \<Rightarrow> state \<Rightarrow> (Raytracer \<times> Ray \<times> Color) option \<times> state" where
  "pixel_loop fuel cfg scn O_raster dR dU [] rt ray color st = (Some (rt, ray, color), st)"
| "pixel_loop fuel cfg scn O_raster dR dU (i # rest) rt ray color st =
     and_then (cast_pixel fuel cfg scn O_raster dR dU i rt ray color st)
       (\<lambda>(rt', ray', color') st'. pixel_loop fuel cfg scn O_raster dR dU rest rt' ray' color' st')"

text \<open>
  \<^verbatim>\<open>cast_line\<close>: the columns \<open>0 \<le> i < resolutionX\<close> of the current line, then the advance of
  \<^verbatim>\<open>currentLine\<close>.
\<close>

definition cast_line :: "nat \<Rightarrow> Params \<Rightarrow> Raytracer \<Rightarrow> World \<Rightarrow> state \<Rightarrow> Raytracer option \<times> state" where
  "cast_line fuel cfg rt world st =
     (let cam = getCamera world;
          ray = \<lparr>origin = eye cam, direction = 0, no_emitters = False\<rparr>;
          G = Unit (lookat cam - eye cam);
          U = Unit (orth (up cam) G);
          R = Unit (cross G U);
          O_raster = (vpdist cam *\<^sub>R G) - R + U;
          dU = (2 / of_int (resolutionY rt - 1)) *\<^sub>R U;
          dR = (2 / of_int (resolutionX rt - 1)) *\<^sub>R R
      in and_then (pixel_loop fuel cfg (getScene world) O_raster dR dU
                     (map int [0..<nat (resolutionX rt)]) rt ray 0 st)
           (\<lambda>(rt', ray', color') st'.
              (Some (if currentLine rt' + 1 = resolutionY rt'
                     then rt'\<lparr>currentLine := currentLine rt' + 1, isDone := True\<rparr>
                     else rt'\<lparr>currentLine := currentLine rt' + 1\<rparr>), st')))"

section \<open>Auxiliary notions\<close>

text \<open>The number of turns the Russian roulette loop can still take from the counter \<open>posi\<close>.\<close>

definition turns_bound :: "real \<Rightarrow> nat" where
  "turns_bound posi = (if posi < 0 then 0 else nat (\<lfloor>posi / 15\<rfloor> + 1))"

text \<open>
  What \<^verbatim>\<open>ToneMap\<close> makes of one channel \<open>c\<close>: the byte \<open>w\<close> is 255 from \<open>255/256\<close> on, the
  integer part of \<open>256 c\<close> below that and down to 0, and the low eight bits of the integer
  part for a negative channel.
\<close>

definition fits_int :: "real \<Rightarrow> bool" where
  "fits_int v = (- (2 ^ 31) \<le> \<lfloor>v\<rfloor> \<and> \<lfloor>v\<rfloor> < 2 ^ 31)"

definition tone_mapped :: "real \<Rightarrow> 8 word \<Rightarrow> bool" where
  "tone_mapped c w =
     (uint w \<le> 255
      \<and> (255 / 256 \<le> c \<longrightarrow> w = 255)
      \<and> (0 \<le> c \<and> c < 255 / 256 \<longrightarrow> uint w = \<lfloor>256 * c\<rfloor>)
      \<and> (c < 0 \<longrightarrow> uint w = \<lfloor>256 * c\<rfloor> mod 256))"

text \<open>
  The events a run of this program may record: a call of \<^verbatim>\<open>Trace\<close> with a ray that sees
  emitters, and a specular branch at a hit with a positive Phong exponent. \<open>grows\<close> says that
  a run from \<open>st\<close> to \<open>st'\<close> has only added such events.
\<close>

definition sound_event :: "event \<Rightarrow> bool" where
  "sound_event e =
     (case e of TraceCall r d \<Rightarrow> \<not> no_emitters r
      | Suppressed r \<Rightarrow> False
      | SpecularBranch h \<Rightarrow> 0 < m_Phong_exp (material h))"

definition grows :: "state \<Rightarrow> state \<Rightarrow> bool" where
  "grows st st' = (\<exists>new. events st' = events st @ new \<and> list_all sound_event new)"

definition sound_tracer :: "tracer \<Rightarrow> bool" where
  "sound_tracer trace =
     (\<forall>r scn d s. \<not> no_emitters r \<longrightarrow> grows s (snd (trace r scn d s)))"

section \<open>Concrete inputs\<close>

text \<open>
  The classes derived from \<^verbatim>\<open>Object\<close> are not among the sources. The concrete scenes below
  use a plane \<open>dot n p = c\<close> whose intersector keeps the contract stated in \<^verbatim>\<open>Cast\<close> (it
  writes the record only for a hit in front of the ray and closer than the recorded distance)
  and whose sampler always returns the same point.
\<close>

definition plane :: "Vec3 \<Rightarrow> real \<Rightarrow> Sample \<Rightarrow> Material \<Rightarrow> Object" where
  "plane n c smp m =
     \<lparr>Intersect = (\<lambda>ray g.
         let den = dot n (direction ray); t = (c - dot n (origin ray)) / den
         in if den \<noteq> 0 \<and> 0 < t \<and> t < distance g
            then (True, \<lparr>distance = t, point = origin ray + t *\<^sub>R direction ray, normal = n,
                         geom_origin = origin ray\<rparr>)
            else (False, g)),
      GetSample = (\<lambda>p nrm g. (smp, g)),
      obj_material = m\<rparr>"

definition matte :: Material where
  "matte = \<lparr>m_Diffuse = Color (1/4) (1/4) (1/4), m_Specular = Color (1/4) (1/4) (1/4),
             m_Emission = Color 0 0 0, m_Phong_exp = 1, Emitter = False\<rparr>"

definition lamp :: Material where
  "lamp = \<lparr>m_Diffuse = Color (1/2) (1/2) (1/2), m_Specular = Color 0 0 0,
            m_Emission = Color 1 1 1, m_Phong_exp = 0, Emitter = True\<rparr>"

definition cfg0 :: Params where
  "cfg0 = \<lparr>Epsilon = 1 / 1000, Infinity = 1000000\<rparr>"

text \<open>
  A floor \<open>z = 0\<close>, a luminous ceiling \<open>z = 4\<close> sampled at \<open>(3, 0, 4)\<close> and a luminous wall
  \<open>x = - 4\<close> sampled at \<open>(- 4, 0, 3)\<close>.
\<close>

definition room :: Scene where
  "room = \<lparr>objects =
              [plane (Vec3 0 0 1) 0 \<lparr>sample_P = Vec3 0 0 0, sample_w = 0\<rparr> matte,
               plane (Vec3 0 0 1) 4 \<lparr>sample_P = Vec3 3 0 4, sample_w = 1\<rparr> lamp,
               plane (Vec3 1 0 0) (- 4) \<lparr>sample_P = Vec3 (- 4) 0 3, sample_w = 1\<rparr> lamp],
            bgcolor = Color 0 0 0\<rparr>"

text \<open>A ray from \<open>(- 3, 0, 4)\<close> that meets the floor at the origin, and one that goes up to the ceiling.\<close>

definition eye_ray :: Ray where
  "eye_ray = \<lparr>origin = Vec3 (- 3) 0 4, direction = Vec3 (3/5) 0 (- 4/5), no_emitters = False\<rparr>"

definition lamp_ray :: Ray where
  "lamp_ray = \<lparr>origin = Vec3 0 0 1, direction = Vec3 0 0 1, no_emitters = False\<rparr>"

text \<open>
  Results of \<^verbatim>\<open>rand\<close>: 99 and 99 for the Russian roulette (one extension, then the stop),
  then 1 for every later call.
\<close>

definition run0 :: state where
  "run0 = \<lparr>gen = \<lparr>draws = (\<lambda>i. if i < 2 then 99 else 1), pos = 0\<rparr>, events = []\<rparr>"

text \<open>The same with 0 for every later call.\<close>

definition run1 :: state where
  "run1 = \<lparr>gen = \<lparr>draws = (\<lambda>i. if i < 2 then 99 else 0), pos = 0\<rparr>, events = []\<rparr>"

text \<open>The hit of \<open>eye_ray\<close> on the floor, and the same hit on a floor with Phong exponent 0.\<close>

definition floor_hit :: HitInfo where
  "floor_hit = \<lparr>geom = \<lparr>distance = 5, point = Vec3 0 0 0, normal = Vec3 0 0 1,
                         geom_origin = Vec3 (- 3) 0 4\<rparr>, material = matte\<rparr>"

definition dull_hit :: HitInfo where
  "dull_hit = floor_hit\<lparr>material := matte\<lparr>m_Phong_exp := 0\<rparr>\<rparr>"

text \<open>A world without objects, seen by a camera at \<open>(0, 0, 5)\<close> that looks down, two pixels wide.\<close>

definition void_world :: World where
  "void_world =
     \<lparr>getCamera = \<lparr>eye = Vec3 0 0 5, lookat = Vec3 0 0 0, up = Vec3 0 1 0, vpdist = 1\<rparr>,
      getScene = \<lparr>objects = [], bgcolor = Color 0 0 0\<rparr>\<rparr>"

definition tracer0 :: Raytracer where
  "tracer0 = \<lparr>resolutionX = 2, resolutionY = 2, currentLine = 0,
               image_I = (\<lambda>row col. \<lparr>pixel_r = 0, pixel_g = 0, pixel_b = 0\<rparr>), isDone = False\<rparr>"

section \<open>Evaluation helpers\<close>

lemmas vec_simps = zero_Vec3_def plus_Vec3_def minus_Vec3_def uminus_Vec3_def scaleR_Vec3_def
  dot_def Length_def Unit_def Reflection_def

lemmas color_simps = zero_Color_def plus_Color_def times_Color_def scaleR_Color_def

lemma and_then_Some [simp]: "and_then (Some x, st) k = k x st"
  by (simp add: and_then_def)

lemma and_then_None [simp]: "and_then (None, st) k = (None, st)"
  by (simp add: and_then_def)

lemma sqrt_25: "sqrt 25 = 5"
proof -
  have "sqrt 25 = sqrt (5\<^sup>2)" by simp
  also have "\<dots> = 5" by (simp only: real_sqrt_abs abs_numeral)
  finally show ?thesis .
qed

section \<open>Properties of Cast\<close>

lemma Cast_loop_snoc:
  "Cast_loop ray ignore i (xs @ [object]) s =
     Cast_step ray ignore (i + length xs) object (Cast_loop ray ignore i xs s)"
  by (induction xs arbitrary: i s) simp_all

lemma Cast_upto_Suc:
  assumes "k < length (objects scn)"
  shows "Cast_upto (Suc k) ray scn hitinfo ignore =
           Cast_step ray ignore k (objects scn ! k) (Cast_upto k ray scn hitinfo ignore)"
proof -
  have "take (Suc k) (objects scn) = take k (objects scn) @ [objects scn ! k]"
    using assms by (rule take_Suc_conv_app_nth)
  moreover have "length (take k (objects scn)) = k"
    using assms by simp
  ultimately show ?thesis
    by (simp add: Cast_upto_def Cast_loop_snoc)
qed

lemma Cast_upto_all:
  "Cast_upto (length (objects scn)) ray scn hitinfo ignore = Cast ray scn hitinfo ignore"
  by (simp add: Cast_upto_def Cast_def)

text \<open>
  One turn of the loop either leaves the flag and the material as they were, or the
  intersector answered true: then the material is the object's and the distance went down.
\<close>

lemma Cast_step_lockstep:
  assumes "closer_only object"
  shows "(fst (Cast_step ray ignore i object s) = fst s
            \<and> material (snd (Cast_step ray ignore i object s)) = material (snd s))
         \<or> (fst (Cast_step ray ignore i object s)
            \<and> material (snd (Cast_step ray ignore i object s)) = obj_material object
            \<and> distance (geom (snd (Cast_step ray ignore i object s))) < distance (geom (snd s)))"
proof (cases "Some i \<noteq> ignore \<and> fst (Intersect object ray (geom (snd s)))")
  case True
  then have "distance (snd (Intersect object ray (geom (snd s)))) < distance (geom (snd s))"
    using assms by (simp add: closer_only_def)
  with True show ?thesis
    by (auto simp: Cast_step_def split: prod.splits bool.splits)
next
  case False
  then show ?thesis
    by (auto simp: Cast_step_def split: prod.splits bool.splits)
qed

text \<open>
  Claim C7. If every intersector of the scene answers true only when it has written a
  strictly smaller distance, then in every turn of the loop of \<^verbatim>\<open>Cast\<close> the material of the
  hit record changes only if the recorded distance went down in that turn; the state after
  the last turn is the result of \<^verbatim>\<open>Cast\<close>; and with no objects \<^verbatim>\<open>Cast\<close> answers "no hit"
  and returns the record it was given.
\<close>

theorem Cast_material_lockstep:
  assumes "\<forall>object \<in> set (objects scn). closer_only object"
  shows "(\<forall>k < length (objects scn).
            material (snd (Cast_upto (Suc k) ray scn hitinfo ignore))
              \<noteq> material (snd (Cast_upto k ray scn hitinfo ignore))
            \<longrightarrow> distance (geom (snd (Cast_upto (Suc k) ray scn hitinfo ignore)))
                  < distance (geom (snd (Cast_upto k ray scn hitinfo ignore))))
         \<and> Cast_upto (length (objects scn)) ray scn hitinfo ignore = Cast ray scn hitinfo ignore
         \<and> (objects scn = [] \<longrightarrow> Cast ray scn hitinfo ignore = (False, hitinfo))"
proof (intro conjI allI impI)
  fix k
  assume k: "k < length (objects scn)"
    and changed: "material (snd (Cast_upto (Suc k) ray scn hitinfo ignore))
              \<noteq> material (snd (Cast_upto k ray scn hitinfo ignore))"
  from k assms have "closer_only (objects scn ! k)" by simp
  from Cast_step_lockstep [OF this, of ray ignore k "Cast_upto k ray scn hitinfo ignore"] changed
  show "distance (geom (snd (Cast_upto (Suc k) ray scn hitinfo ignore)))
                  < distance (geom (snd (Cast_upto k ray scn hitinfo ignore)))"
    by (simp add: Cast_upto_Suc [OF k])
next
  show "Cast_upto (length (objects scn)) ray scn hitinfo ignore = Cast ray scn hitinfo ignore"
    by (rule Cast_upto_all)
next
  assume "objects scn = []"
  then show "Cast ray scn hitinfo ignore = (False, hitinfo)"
    by (simp add: Cast_def)
qed

lemma closer_only_plane: "closer_only (plane n c smp m)"
  by (auto simp: closer_only_def plane_def Let_def)

text \<open>
  Witness for C7: the planes of \<open>room\<close> keep the contract; the first turn of \<^verbatim>\<open>Cast\<close> for
  \<open>eye_ray\<close> replaces the material and lowers the distance from \<^verbatim>\<open>Infinity\<close> to 5.
\<close>

theorem Cast_material_lockstep_witness:
  "list_all closer_only (objects room)
   \<and> material (snd (Cast_upto (Suc 0) eye_ray room (fresh_hit (Infinity cfg0)) None))
       \<noteq> material (snd (Cast_upto 0 eye_ray room (fresh_hit (Infinity cfg0)) None))
   \<and> distance (geom (snd (Cast_upto (Suc 0) eye_ray room (fresh_hit (Infinity cfg0)) None)))
       < distance (geom (snd (Cast_upto 0 eye_ray room (fresh_hit (Infinity cfg0)) None)))
   \<and> Cast eye_ray (room\<lparr>objects := []\<rparr>) (fresh_hit (Infinity cfg0)) None
       = (False, fresh_hit (Infinity cfg0))"
proof -
  have c: "\<forall>object \<in> set (objects room). closer_only object"
    by (simp add: room_def closer_only_plane)
  have e: "\<forall>object \<in> set (objects (room\<lparr>objects := []\<rparr>)). closer_only object"
    by simp
  have changed: "material (snd (Cast_upto (Suc 0) eye_ray room (fresh_hit (Infinity cfg0)) None))
       \<noteq> material (snd (Cast_upto 0 eye_ray room (fresh_hit (Infinity cfg0)) None))"
    by (simp add: Cast_upto_def room_def Cast_step_def plane_def eye_ray_def fresh_hit_def
        cfg0_def matte_def Let_def vec_simps)
  have k: "0 < length (objects room)" by (simp add: room_def)
  from Cast_material_lockstep [OF c, of eye_ray "fresh_hit (Infinity cfg0)" None] k changed
  have "distance (geom (snd (Cast_upto (Suc 0) eye_ray room (fresh_hit (Infinity cfg0)) None)))
       < distance (geom (snd (Cast_upto 0 eye_ray room (fresh_hit (Infinity cfg0)) None)))"
    by blast
  moreover from Cast_material_lockstep [OF e, of eye_ray "fresh_hit (Infinity cfg0)" None]
  have "Cast eye_ray (room\<lparr>objects := []\<rparr>) (fresh_hit (Infinity cfg0)) None
       = (False, fresh_hit (Infinity cfg0))"
    by simp
  ultimately show ?thesis using c changed by (simp add: list_all_iff)
qed

section \<open>Properties of ToneMap\<close>

lemma to_channel_sat: "255 \<le> v \<Longrightarrow> to_channel v = 255"
  by (simp add: to_channel_def)

lemma to_channel_uint: "v < 255 \<Longrightarrow> uint (to_channel v) = v mod 256"
  by (simp add: to_channel_def uint_word_of_int)

lemma tone_mapped_channel: "tone_mapped c (to_channel \<lfloor>256 * c\<rfloor>)"
proof -
  let ?v = "\<lfloor>256 * c\<rfloor>"
  have le: "uint (to_channel ?v) \<le> 255"
    using uint_lt2p [of "to_channel ?v"] by simp
  have sat: "to_channel ?v = 255" if "255 / 256 \<le> c"
  proof -
    from that have "255 \<le> 256 * c" by simp
    then have "255 \<le> ?v" by linarith
    then show ?thesis by (rule to_channel_sat)
  qed
  have mid: "uint (to_channel ?v) = ?v" if "0 \<le> c" "c < 255 / 256"
  proof -
    from that have "0 \<le> 256 * c" "256 * c < 255" by simp_all
    then have "0 \<le> ?v" "?v < 255" by linarith+
    then show ?thesis using to_channel_uint [of ?v] by simp
  qed
  have neg: "uint (to_channel ?v) = ?v mod 256" if "c < 0"
  proof -
    from that have "256 * c < 0" by simp
    then have "?v < 255" by linarith
    then show ?thesis by (rule to_channel_uint)
  qed
  from le sat mid neg show ?thesis unfolding tone_mapped_def by blast
qed

lemma int_of_floor_fits: "fits_int v \<Longrightarrow> int_of_floor v = Some \<lfloor>v\<rfloor>"
  by (simp add: int_of_floor_def fits_int_def)

text \<open>
  Claim C4, as amended. For every colour whose channels, times 256, fit an \<^verbatim>\<open>int\<close>,
  \<^verbatim>\<open>ToneMap\<close> returns a pixel and each of its channels lies in 0..255; a channel value of
  \<open>255/256\<close> or more gives 255; a value from 0 up to \<open>255/256\<close> gives the integer part of 256
  times the value; a negative value gives the low eight bits of that integer part, which is
  not 0 in general.
\<close>

theorem ToneMap_channels:
  assumes "fits_int (256 * red color)" and "fits_int (256 * green color)"
    and "fits_int (256 * blue color)"
  shows "\<exists>px. ToneMap color = Some px
           \<and> tone_mapped (red color) (pixel_r px)
           \<and> tone_mapped (green color) (pixel_g px)
           \<and> tone_mapped (blue color) (pixel_b px)"
  using assms by (simp add: ToneMap_def int_of_floor_fits tone_mapped_channel)

text \<open>Witness for C4: a saturated, a middle and a negative channel.\<close>

theorem ToneMap_channels_witness:
  "fits_int (256 * 1) \<and> fits_int (256 * (1 / 2)) \<and> fits_int (256 * (- 1 / 2))
   \<and> ToneMap (Color 1 (1 / 2) (- 1 / 2)) = Some \<lparr>pixel_r = 255, pixel_g = 128, pixel_b = 128\<rparr>
   \<and> tone_mapped 1 255 \<and> tone_mapped (1 / 2) 128 \<and> tone_mapped (- 1 / 2) 128"
proof -
  have f: "fits_int (256 * 1)" "fits_int (256 * (1 / 2))" "fits_int (256 * (- 1 / 2))"
    by (simp_all add: fits_int_def)
  have v: "ToneMap (Color 1 (1 / 2) (- 1 / 2)) = Some \<lparr>pixel_r = 255, pixel_g = 128, pixel_b = 128\<rparr>"
    by (simp add: ToneMap_def int_of_floor_def to_channel_def)
  from ToneMap_channels [of "Color 1 (1 / 2) (- 1 / 2)"] f v
  show ?thesis by simp
qed

text \<open>
  Counterexample to C4 as stated: the red channel \<open>- 1/2\<close> is not treated as 0; the pixel
  gets 128.
\<close>

theorem ToneMap_negative_wraps:
  "ToneMap (Color (- 1 / 2) 0 0) = Some \<lparr>pixel_r = 128, pixel_g = 0, pixel_b = 0\<rparr>"
  by (simp add: ToneMap_def int_of_floor_def to_channel_def)

section \<open>Properties of the Russian roulette loop\<close>

lemma russian_roulette_done: "posi < 0 \<Longrightarrow> russian_roulette num_reb posi g = (num_reb, g)"
  by (subst russian_roulette.simps) simp

lemma russian_roulette_stop:
  "0 \<le> posi \<Longrightarrow> posi < fst (rand 0 99 g)
     \<Longrightarrow> russian_roulette num_reb posi g = (num_reb, snd (rand 0 99 g))"
  by (subst russian_roulette.simps) (simp add: Let_def split_def russian_roulette_done)

lemma russian_roulette_go:
  "0 \<le> posi \<Longrightarrow> \<not> posi < fst (rand 0 99 g)
     \<Longrightarrow> russian_roulette num_reb posi g
           = russian_roulette (num_reb + 1) (posi - 15) (snd (rand 0 99 g))"
  by (subst russian_roulette.simps) (simp add: Let_def split_def)

lemma turns_bound_step: "0 \<le> posi \<Longrightarrow> turns_bound posi = Suc (turns_bound (posi - 15))"
proof -
  assume p: "0 \<le> posi"
  have f: "\<lfloor>(posi - 15) / 15\<rfloor> = \<lfloor>posi / 15\<rfloor> - 1"
  proof -
    have "(posi - 15) / 15 = posi / 15 - 1" by (simp add: field_simps)
    then have "\<lfloor>(posi - 15) / 15\<rfloor> = \<lfloor>posi / 15 - 1\<rfloor>" by (simp only:)
    also have "\<dots> = \<lfloor>posi / 15\<rfloor> - 1" by (rule floor_diff_one)
    finally show ?thesis .
  qed
  show ?thesis
  proof (cases "posi - 15 < 0")
    case True
    with p have "\<lfloor>posi / 15\<rfloor> = 0" by (simp add: floor_eq_iff)
    with True p show ?thesis by (simp add: turns_bound_def)
  next
    case False
    then have "0 \<le> (posi - 15) / 15" by simp
    then have "0 \<le> \<lfloor>(posi - 15) / 15\<rfloor>" by (simp only: zero_le_floor)
    then have "nat (\<lfloor>posi / 15\<rfloor> + 1) = Suc (nat (\<lfloor>(posi - 15) / 15\<rfloor> + 1))"
      unfolding f by linarith
    with False p show ?thesis by (simp add: turns_bound_def)
  qed
qed

lemma turns_bound_100: "turns_bound 100 = 7"
  by (simp add: turns_bound_def)

lemma turns_bound_85: "turns_bound 85 = 6"
  by (simp add: turns_bound_def)

text \<open>
  The loop adds some \<open>k\<close> to \<^verbatim>\<open>num_reb\<close>, with \<open>k\<close> at most the bound of the counter; it draws
  at least \<open>k\<close> and at most that bound of numbers, and leaves the sequence as it is.
\<close>

lemma russian_roulette_shape:
  "\<exists>k. fst (russian_roulette num_reb posi g) = num_reb + of_nat k
       \<and> k \<le> turns_bound posi
       \<and> pos g + k \<le> pos (snd (russian_roulette num_reb posi g))
       \<and> pos (snd (russian_roulette num_reb posi g)) \<le> pos g + turns_bound posi
       \<and> draws (snd (russian_roulette num_reb posi g)) = draws g"
proof (induction num_reb posi g rule: russian_roulette.induct)
  case (1 num_reb posi g)
  show ?case
  proof (cases "0 \<le> posi")
    case False
    then show ?thesis by (intro exI [of _ 0]) (simp add: turns_bound_def russian_roulette_done)
  next
    case True
    let ?g' = "snd (rand 0 99 g)"
    have g': "pos ?g' = Suc (pos g)" "draws ?g' = draws g" by (simp_all add: rand_def)
    show ?thesis
    proof (cases "posi < fst (rand 0 99 g)")
      case stop: True
      have "russian_roulette num_reb posi g = (num_reb, ?g')"
        using True stop by (rule russian_roulette_stop)
      moreover have "1 \<le> turns_bound posi" using turns_bound_step [OF True] by simp
      ultimately show ?thesis using g' by (intro exI [of _ 0]) simp
    next
      case go: False
      have eq: "russian_roulette num_reb posi g = russian_roulette (num_reb + 1) (posi - 15) ?g'"
        using True go by (rule russian_roulette_go)
      have pr: "(fst (rand 0 99 g), ?g') = rand 0 99 g" by simp
      from "1.IH"(2) [OF True refl pr go]
      obtain k where k: "fst (russian_roulette (num_reb + 1) (posi - 15) ?g') = num_reb + 1 + of_nat k"
        "k \<le> turns_bound (posi - 15)"
        "pos ?g' + k \<le> pos (snd (russian_roulette (num_reb + 1) (posi - 15) ?g'))"
        "pos (snd (russian_roulette (num_reb + 1) (posi - 15) ?g')) \<le> pos ?g' + turns_bound (posi - 15)"
        "draws (snd (russian_roulette (num_reb + 1) (posi - 15) ?g')) = draws ?g'"
        by auto
      show ?thesis
        using k g' turns_bound_step [OF True] unfolding eq
        by (intro exI [of _ "Suc k"]) simp
    qed
  qed
qed

lemma russian_roulette_first:
  assumes "draws g (pos g) \<le> 100"
  shows "russian_roulette num_reb 100 g = russian_roulette (num_reb + 1) 85 (snd (rand 0 99 g))"
  using russian_roulette_go [of 100 g num_reb] assms by (simp add: rand_def)

lemma sint_add_small:
  fixes d :: "32 word"
  assumes "k \<le> 7" "sint d + 7 < 2 ^ 31"
  shows "sint (d + of_nat k) = sint d + int k"
proof -
  have k: "sint (of_nat k :: 32 word) = int k"
    using assms(1) by (simp add: signed_of_nat signed_take_bit_int_eq_self)
  have "sint (d + of_nat k) = signed_take_bit 31 (sint d + sint (of_nat k :: 32 word))"
    by (simp add: sint_word_ariths)
  also have "\<dots> = sint d + int k"
    using assms sint_ge [of d] by (simp add: k signed_take_bit_int_eq_self)
  finally show ?thesis .
qed

text \<open>
  Claim C5, as amended. For every input depth \<open>d\<close> of at most \<open>2^31 - 8\<close> and every sequence
  of random draws, the loop ends after at most 7 draws (the function is total, so the loop
  ends on every sequence, not only with probability 1), and the extended depth \<^verbatim>\<open>num_reb\<close>
  is not below \<open>d\<close>.
\<close>

theorem russian_roulette_not_below:
  assumes "sint d + 7 < 2 ^ 31"
  shows "pos (snd (russian_roulette d 100 g)) \<le> pos g + 7
         \<and> sint d \<le> sint (fst (russian_roulette d 100 g))"
proof -
  from russian_roulette_shape [of d 100 g] obtain k where
    k: "fst (russian_roulette d 100 g) = d + of_nat k" "k \<le> 7"
       "pos (snd (russian_roulette d 100 g)) \<le> pos g + 7"
    by (auto simp: turns_bound_100)
  from sint_add_small [OF k(2) assms] have "sint (d + of_nat k) = sint d + int k" .
  with k show ?thesis by simp
qed

text \<open>Witness for C5: depth 0, every draw 99.\<close>

theorem russian_roulette_not_below_witness:
  "sint (0 :: 32 word) + 7 < 2 ^ 31
   \<and> pos (snd (russian_roulette 0 100 \<lparr>draws = \<lambda>i. 99, pos = 0\<rparr>)) \<le> 7
   \<and> sint (0 :: 32 word) \<le> sint (fst (russian_roulette 0 100 \<lparr>draws = \<lambda>i. 99, pos = 0\<rparr>))"
  using russian_roulette_not_below [of 0 "\<lparr>draws = \<lambda>i. 99, pos = 0\<rparr>"] by simp

text \<open>
  Counterexample to C5 as stated: at the input depth \<open>2^31 - 2\<close>, which \<^verbatim>\<open>Shade\<close> receives
  from \<^verbatim>\<open>Trace\<close> at depth \<open>2^31 - 1\<close>, with the draws 0, 0 and 99 the loop extends twice, the
  second increment wraps around, and \<^verbatim>\<open>num_reb\<close> ends below the input depth.
\<close>

theorem russian_roulette_overflow:
  "sint (fst (russian_roulette 0x7FFFFFFE 100 \<lparr>draws = \<lambda>i. if i < 2 then 0 else 99, pos = 0\<rparr>))
     < sint (0x7FFFFFFE :: 32 word)"
  by (simp add: russian_roulette.simps Let_def rand_def)

text \<open>
  Claim C9, as amended. For every input depth \<open>d\<close> of at most \<open>2^31 - 8\<close> and every sequence
  of draws in \<open>[0, 99]\<close>, the loop ends after at most 7 draws (so within 8 turns), the first
  draw extends (the loop goes on from \<open>d + 1\<close> and the counter 85), and
  \<open>d + 1 \<le> num_reb \<le> d + 7\<close>.
\<close>

theorem russian_roulette_bounds:
  assumes "\<forall>i. 0 \<le> draws g i \<and> draws g i \<le> 99" and "sint d + 7 < 2 ^ 31"
  shows "pos (snd (russian_roulette d 100 g)) - pos g \<le> 7
         \<and> russian_roulette d 100 g = russian_roulette (d + 1) 85 (snd (rand 0 99 g))
         \<and> sint d + 1 \<le> sint (fst (russian_roulette d 100 g))
         \<and> sint (fst (russian_roulette d 100 g)) \<le> sint d + 7"
proof -
  from assms(1) have "draws g (pos g) \<le> 100"
    by (rule allE [of _ "pos g"]) simp
  then have first: "russian_roulette d 100 g = russian_roulette (d + 1) 85 (snd (rand 0 99 g))"
    by (rule russian_roulette_first)
  from russian_roulette_shape [of "d + 1" 85 "snd (rand 0 99 g)"] obtain k where
    k: "fst (russian_roulette (d + 1) 85 (snd (rand 0 99 g))) = d + 1 + of_nat k" "k \<le> 6"
    by (auto simp: turns_bound_85)
  have "fst (russian_roulette d 100 g) = d + of_nat (Suc k)"
    using k(1) first by (simp add: ac_simps)
  moreover have "sint (d + of_nat (Suc k)) = sint d + int (Suc k)"
    using k(2) assms(2) by (intro sint_add_small) simp_all
  ultimately have val: "sint (fst (russian_roulette d 100 g)) = sint d + int k + 1"
    by (simp only: of_nat_Suc add.commute add.assoc)
  from russian_roulette_shape [of d 100 g]
  have "pos (snd (russian_roulette d 100 g)) \<le> pos g + 7"
    by (auto simp: turns_bound_100)
  with val k(2) first show ?thesis by simp
qed

text \<open>Witness for C9: depth 1, the draws 0, 0 and 99: two extensions, then the stop.\<close>

theorem russian_roulette_bounds_witness:
  "(\<forall>i :: nat. (0 :: real) \<le> (if i = 2 then 99 else 0) \<and> (if i = 2 then 99 else 0) \<le> (99 :: real))
   \<and> sint (1 :: 32 word) + 7 < 2 ^ 31
   \<and> russian_roulette 1 100 \<lparr>draws = \<lambda>i. if i = 2 then 99 else 0, pos = 0\<rparr>
       = (3, \<lparr>draws = \<lambda>i. if i = 2 then 99 else 0, pos = 3\<rparr>)
   \<and> sint (1 :: 32 word) + 1 \<le> sint (fst (russian_roulette 1 100 \<lparr>draws = \<lambda>i. if i = 2 then 99 else 0, pos = 0\<rparr>))
   \<and> sint (fst (russian_roulette 1 100 \<lparr>draws = \<lambda>i. if i = 2 then 99 else 0, pos = 0\<rparr>)) \<le> sint (1 :: 32 word) + 7"
  using russian_roulette_bounds [of "\<lparr>draws = \<lambda>i. if i = 2 then 99 else 0, pos = 0\<rparr>" 1]
  by (simp add: russian_roulette.simps Let_def rand_def)

text \<open>
  Counterexample to C9 as stated: at the input depth \<open>2^31 - 7\<close> with every draw 0 the loop
  extends seven times, the last increment wraps around, and \<open>d + 1 \<le> num_reb\<close> fails.
\<close>

theorem russian_roulette_wraps:
  "\<not> (sint (0x7FFFFFF9 :: 32 word) + 1
        \<le> sint (fst (russian_roulette 0x7FFFFFF9 100 \<lparr>draws = \<lambda>i. 0, pos = 0\<rparr>)))"
  by (simp add: russian_roulette.simps Let_def rand_def)

section \<open>Properties of Trace\<close>

text \<open>
  Claim C2. For every ray, scene and depth, \<^verbatim>\<open>Trace\<close> returns the background colour of the
  scene whenever \<^verbatim>\<open>Cast\<close> reports no hit or the depth is negative, also when the ray hits an
  object. (\<^verbatim>\<open>Trace\<close> returns at once here: a recursion bound of one call is enough.)
\<close>

theorem Trace_background:
  assumes "\<not> fst (Cast ray scn (fresh_hit (Infinity cfg)) None) \<or> sint max_tree_depth < 0"
  shows "Trace (Suc n) cfg ray scn max_tree_depth st
           = (Some (bgcolor scn), log_event (TraceCall ray max_tree_depth) st)"
  using assms by (auto simp: Let_def split_def)

lemma Cast_eye:
  "Cast eye_ray room (fresh_hit (Infinity cfg0)) None
     = (True, \<lparr>geom = \<lparr>distance = 5, point = Vec3 0 0 0, normal = Vec3 0 0 1,
                        geom_origin = Vec3 (- 3) 0 4\<rparr>, material = matte\<rparr>)"
  by (simp add: Cast_def room_def Cast_step_def plane_def eye_ray_def fresh_hit_def cfg0_def
      Let_def vec_simps)

text \<open>Witness for C2: \<open>eye_ray\<close> hits the floor of \<open>room\<close>, and at depth \<open>- 1\<close> the answer is the background.\<close>

theorem Trace_background_witness:
  "sint (- 1 :: 32 word) < 0
   \<and> fst (Cast eye_ray room (fresh_hit (Infinity cfg0)) None)
   \<and> Trace (Suc 0) cfg0 eye_ray room (- 1) run0
       = (Some (bgcolor room), log_event (TraceCall eye_ray (- 1)) run0)"
  using Trace_background [of eye_ray room cfg0 "- 1" 0 run0] Cast_eye by simp

text \<open>
  What \<^verbatim>\<open>Trace\<close> does for a hit on an emitter: for every ray with \<^verbatim>\<open>no_emitters\<close> false and
  every depth that is not negative, the answer is the field \<^verbatim>\<open>m_Diffuse\<close> of the material.
\<close>

lemma Trace_emitter_hit:
  assumes "fst (Cast ray scn (fresh_hit (Infinity cfg)) None)"
    and "Emitter (material (snd (Cast ray scn (fresh_hit (Infinity cfg)) None)))"
    and "\<not> no_emitters ray" and "0 \<le> sint max_tree_depth"
  shows "Trace (Suc n) cfg ray scn max_tree_depth st
           = (Some (m_Diffuse (material (snd (Cast ray scn (fresh_hit (Infinity cfg)) None)))),
              log_event (TraceCall ray max_tree_depth) st)"
  using assms by (simp add: Let_def split_def Shade_with_def)

text \<open>
  Claim C1 fails on the code. The ray \<open>lamp_ray\<close> has \<^verbatim>\<open>no_emitters\<close> false and its closest hit
  in \<open>room\<close> is the luminous ceiling, whose emission colour is \<open>(1, 1, 1)\<close> and whose diffuse
  colour is \<open>(1/2, 1/2, 1/2)\<close>. At the depth \<^verbatim>\<open>tree_depth\<close> that \<^verbatim>\<open>cast_line\<close> passes,
  \<^verbatim>\<open>Trace\<close> returns the diffuse colour, not the emission colour.
\<close>

theorem Trace_emitter_hit_diffuse:
  "\<not> no_emitters lamp_ray
   \<and> fst (Cast lamp_ray room (fresh_hit (Infinity cfg0)) None)
   \<and> Emitter (material (snd (Cast lamp_ray room (fresh_hit (Infinity cfg0)) None)))
   \<and> m_Emission (material (snd (Cast lamp_ray room (fresh_hit (Infinity cfg0)) None))) = Color 1 1 1
   \<and> Trace (Suc 0) cfg0 lamp_ray room tree_depth run0
       = (Some (Color (1/2) (1/2) (1/2)), log_event (TraceCall lamp_ray tree_depth) run0)"
proof -
  have "Cast lamp_ray room (fresh_hit (Infinity cfg0)) None
     = (True, \<lparr>geom = \<lparr>distance = 3, point = Vec3 0 0 4, normal = Vec3 0 0 1,
                        geom_origin = Vec3 0 0 1\<rparr>, material = lamp\<rparr>)"
    by (simp add: Cast_def room_def Cast_step_def plane_def lamp_ray_def fresh_hit_def cfg0_def
        Let_def vec_simps)
  then show ?thesis
    by (simp add: Let_def Shade_with_def lamp_def lamp_ray_def tree_depth_def)
qed

section \<open>Properties of the direct lighting\<close>

text \<open>
  For a hit whose material has a Phong exponent \<open>\<le> 0\<close> the local \<^verbatim>\<open>specular\<close> stays black
  through the whole loop: here the specular term of every emitter is zero.
\<close>

lemma direct_step_dull:
  assumes "m_Phong_exp (material hit) \<le> 0"
  shows "specular (fst (direct_step hit scn shadows V i object s)) = specular (fst s)"
  using assms by (simp add: direct_step_def Let_def split_def)

lemma direct_loop_dull:
  assumes "m_Phong_exp (material hit) \<le> 0"
  shows "specular (fst (direct_loop hit scn shadows V i objs s)) = specular (fst s)"
  by (induction objs arbitrary: i s) (simp_all add: direct_step_dull [OF assms])

text \<open>
  What the loop does for an emitter that is not occluded and whose reflected direction has
  \<open>R \<cdot> V \<le> 0\<close>: the local \<^verbatim>\<open>specular\<close> keeps the value of the turn before, and that value
  is added, with the new diffuse term, times the irradiance.
\<close>

lemma direct_step_keeps_specular:
  assumes "Emitter (obj_material object)"
    and "\<not> fst (Cast (shadows\<lparr>direction := Unit (sample_P (fst (GetSample object (point (geom hit)) (normal (geom hit)) g)) - point (geom hit))\<rparr>)
                   scn (fresh_hit (Length (sample_P (fst (GetSample object (point (geom hit)) (normal (geom hit)) g)) - point (geom hit)))) (Some i))"
    and "dot (Reflection (Unit (sample_P (fst (GetSample object (point (geom hit)) (normal (geom hit)) g)) - point (geom hit))) (normal (geom hit))) V \<le> 0"
  shows "specular (fst (direct_step hit scn shadows V i object (lit, g))) = specular lit"
  using assms by (simp add: direct_step_def Let_def split_def)

text \<open>
  Claim C3 fails on the code. In \<open>room\<close> the floor point hit by \<open>eye_ray\<close> sees both emitters.
  For the ceiling \<open>R \<cdot> V = 1\<close>, so \<^verbatim>\<open>specular\<close> becomes \<open>(1/4, 1/4, 1/4)\<close> and the ceiling adds
  \<open>9/20\<close> per channel. For the wall \<open>R \<cdot> V = 0\<close>, and the claim has it add its diffuse term
  alone, \<open>3/20\<close>, for a total of \<open>12/20\<close>. The code adds \<open>3/20 + 1/4\<close>: \<^verbatim>\<open>specular\<close> still holds
  the value computed for the ceiling, and the total is \<open>17/20\<close>.
\<close>

theorem Trace_stale_specular:
  "dot (Reflection (Unit (Vec3 (- 4) 0 3 - Vec3 0 0 0)) (Vec3 0 0 1))
       (Unit (Vec3 0 0 0 - Vec3 (- 3) 0 4)) = 0
   \<and> Trace (Suc 0) cfg0 eye_ray room tree_depth run0
       = (Some (Color (17/20) (17/20) (17/20)),
          \<lparr>gen = \<lparr>draws = (\<lambda>i. if i < 2 then 99 else 1), pos = 3\<rparr>,
            events = [TraceCall eye_ray 1]\<rparr>)"
proof -
  have rr: "russian_roulette 0 100 \<lparr>draws = (\<lambda>i. if i < 2 then 99 else 1), pos = 0\<rparr>
              = (1, \<lparr>draws = (\<lambda>i. if i < 2 then 99 else 1), pos = 2\<rparr>)"
    by (simp add: russian_roulette.simps Let_def rand_def)
  have "dot (Reflection (Unit (Vec3 (- 4) 0 3 - Vec3 0 0 0)) (Vec3 0 0 1))
          (Unit (Vec3 0 0 0 - Vec3 (- 3) 0 4)) = 0"
    by (simp add: vec_simps sqrt_25)
  moreover have "Trace (Suc 0) cfg0 eye_ray room tree_depth run0
       = (Some (Color (17/20) (17/20) (17/20)),
          \<lparr>gen = \<lparr>draws = (\<lambda>i. if i < 2 then 99 else 1), pos = 3\<rparr>,
            events = [TraceCall eye_ray 1]\<rparr>)"
    by (simp add: Shade_with_def direct_step_def room_def plane_def matte_def lamp_def
        eye_ray_def run0_def log_event_def rr rand_def cfg0_def tree_depth_def
        Cast_def Cast_step_def fresh_hit_def Let_def vec_simps color_simps sqrt_25)
  ultimately show ?thesis by simp
qed

section \<open>Properties of Shade: what a run records\<close>

lemma grows_refl: "grows st st"
  by (simp add: grows_def)

lemma grows_same: "events st' = events st \<Longrightarrow> grows st st'"
  by (simp add: grows_def)

lemma grows_trans: "grows st st' \<Longrightarrow> grows st' st'' \<Longrightarrow> grows st st''"
  by (auto simp: grows_def)

lemma grows_log_event: "sound_event e \<Longrightarrow> grows st (log_event e st)"
  by (simp add: grows_def log_event_def)

lemma grows_new_events:
  assumes "grows st st'"
  obtains new where "events st' = events st @ new" "list_all sound_event new"
  using assms unfolding grows_def by blast

lemma grows_and_then:
  assumes "grows st (snd m)"
    and "\<And>x. fst m = Some x \<Longrightarrow> grows (snd m) (snd (k x (snd m)))"
  shows "grows st (snd (and_then m k))"
proof (cases m)
  case (Pair answer st')
  show ?thesis
  proof (cases answer)
    case None
    with Pair assms(1) show ?thesis by simp
  next
    case (Some x)
    with Pair assms(2) [of x] have "grows st' (snd (k x st'))" by simp
    with Pair Some assms(1) show ?thesis by (auto intro: grows_trans)
  qed
qed

lemma sound_tracerD:
  "sound_tracer trace \<Longrightarrow> \<not> no_emitters r \<Longrightarrow> grows s (snd (trace r scn d s))"
  unfolding sound_tracer_def by blast

text \<open>The diffuse bounce passes a ray with \<^verbatim>\<open>no_emitters\<close> false to \<^verbatim>\<open>Trace\<close>.\<close>

lemma indirect_diffuse_grows:
  assumes "sound_tracer trace"
  shows "grows st (snd (indirect_diffuse cfg trace hit scn num_reb u contriD S1 st))"
proof (cases "u < contriD")
  case False
  then show ?thesis by (simp add: indirect_diffuse_def grows_refl)
next
  case True
  define rayo where "rayo = \<lparr>origin = point (geom hit) + Epsilon cfg *\<^sub>R normal (geom hit),
      direction = sample_P S1, no_emitters = False\<rparr>"
  have "grows st (snd (trace rayo scn num_reb st))"
    by (rule sound_tracerD [OF assms]) (simp add: rayo_def)
  then have "grows st (snd (and_then (trace rayo scn num_reb st)
      (\<lambda>c st'. (Some (((1 / Pi) *\<^sub>R (sample_w S1 *\<^sub>R m_Diffuse (material hit))) * c), st'))))"
    by (rule grows_and_then) (simp add: grows_refl)
  with True show ?thesis by (simp add: indirect_diffuse_def Let_def rayo_def)
qed

text \<open>
  The specular bounce is entered only under the test \<^verbatim>\<open>m_Phong_exp > 0\<close>, and it passes a ray
  with \<^verbatim>\<open>no_emitters\<close> false to \<^verbatim>\<open>Trace\<close>.
\<close>

lemma indirect_specular_grows:
  assumes "sound_tracer trace"
  shows "grows st (snd (indirect_specular cfg trace hit scn num_reb u contriD contriS V st))"
proof (cases "m_Phong_exp (material hit) > 0
               \<and> (if contriD \<le> u then 1 else 0) < contriD + contriS")
  case False
  then have "indirect_specular cfg trace hit scn num_reb u contriD contriS V st = (Some 0, st)"
    unfolding indirect_specular_def by (rule if_not_P)
  then show ?thesis by (simp add: grows_refl)
next
  case True
  define lobe where "lobe = SampleSpecularLobe (Reflection V (normal (geom hit)))
      (m_Phong_exp (material hit)) (gen st)"
  define st1 where "st1 = log_event (SpecularBranch hit) (st\<lparr>gen := snd lobe\<rparr>)"
  define rayo1 where "rayo1 = \<lparr>origin = point (geom hit) + Epsilon cfg *\<^sub>R normal (geom hit),
      direction = sample_P (fst lobe), no_emitters = False\<rparr>"
  have "sound_event (SpecularBranch hit)" using True by (simp add: sound_event_def)
  then have "grows (st\<lparr>gen := snd lobe\<rparr>) st1" unfolding st1_def by (rule grows_log_event)
  moreover have "grows st (st\<lparr>gen := snd lobe\<rparr>)" by (rule grows_same) simp
  ultimately have a: "grows st st1" by (blast intro: grows_trans)
  have "grows st1 (snd (trace rayo1 scn num_reb st1))"
    by (rule sound_tracerD [OF assms]) (simp add: rayo1_def)
  with a have "grows st (snd (trace rayo1 scn num_reb st1))" by (rule grows_trans)
  then have "grows st (snd (and_then (trace rayo1 scn num_reb st1)
      (\<lambda>c st'. (Some ((((m_Phong_exp (material hit) + 2) / (2 * Pi)) *\<^sub>R
                          (sample_w (fst lobe) *\<^sub>R m_Specular (material hit))) * c), st'))))"
    by (rule grows_and_then) (simp add: grows_refl)
  moreover from True have "indirect_specular cfg trace hit scn num_reb u contriD contriS V st
      = and_then (trace rayo1 scn num_reb st1)
          (\<lambda>c st'. (Some ((((m_Phong_exp (material hit) + 2) / (2 * Pi)) *\<^sub>R
                              (sample_w (fst lobe) *\<^sub>R m_Specular (material hit))) * c), st'))"
    unfolding indirect_specular_def Let_def split_def rayo1_def st1_def lobe_def
    by (rule if_P)
  ultimately show ?thesis by simp
qed

lemma Shade_indirect_grows:
  assumes tr: "sound_tracer trace"
  shows "grows st (snd (Shade_indirect cfg trace hit scn num_reb u contriD contriS V st))"
proof -
  define hemi where "hemi = SampleProjectedHemisphere (normal (geom hit)) (gen st)"
  have "grows st (st\<lparr>gen := snd hemi\<rparr>)" by (rule grows_same) simp
  moreover have "grows (st\<lparr>gen := snd hemi\<rparr>)
      (snd (indirect_diffuse cfg trace hit scn num_reb u contriD (fst hemi) (st\<lparr>gen := snd hemi\<rparr>)))"
    by (rule indirect_diffuse_grows [OF tr])
  ultimately have "grows st
      (snd (indirect_diffuse cfg trace hit scn num_reb u contriD (fst hemi) (st\<lparr>gen := snd hemi\<rparr>)))"
    by (rule grows_trans)
  then have "grows st (snd (and_then
      (indirect_diffuse cfg trace hit scn num_reb u contriD (fst hemi) (st\<lparr>gen := snd hemi\<rparr>))
      (\<lambda>indirect_diff st2.
          and_then (indirect_specular cfg trace hit scn num_reb u contriD contriS V st2)
            (\<lambda>indirect_spec st3. (Some (indirect_diff + indirect_spec), st3)))))"
  proof (rule grows_and_then)
    fix x
    show "grows (snd (indirect_diffuse cfg trace hit scn num_reb u contriD (fst hemi) (st\<lparr>gen := snd hemi\<rparr>)))
        (snd (and_then (indirect_specular cfg trace hit scn num_reb u contriD contriS V
                 (snd (indirect_diffuse cfg trace hit scn num_reb u contriD (fst hemi) (st\<lparr>gen := snd hemi\<rparr>))))
               (\<lambda>indirect_spec st3. (Some (x + indirect_spec), st3))))"
      by (rule grows_and_then [OF indirect_specular_grows [OF tr]]) (simp add: grows_refl)
  qed
  then show ?thesis by (simp add: Shade_indirect_def Let_def split_def hemi_def)
qed

text \<open>
  The course of \<^verbatim>\<open>Shade\<close> for a hit that is not on an emitter, from the results of its steps.
\<close>

lemma Shade_with_steps:
  assumes "\<not> Emitter (material hit)"
    and "russian_roulette max_tree_depth 100 (gen st) = (num_reb, g1)"
    and "rand 0 1 g1 = (u, g2)"
    and "direct_loop hit scn
           \<lparr>origin = point (geom hit) + Epsilon cfg *\<^sub>R normal (geom hit), direction = 0,
             no_emitters = False\<rparr>
           (Unit (point (geom hit) - geom_origin (geom hit))) 0 (objects scn)
           (\<lparr>diffuse = 0, specular = 0, direct = 0\<rparr>, g2) = (lit, g3)"
    and "contriS = (blue (m_Specular (material hit)) + red (m_Specular (material hit))
                     + green (m_Specular (material hit))) / 3"
    and "contriD = (blue (m_Diffuse (material hit)) + red (m_Diffuse (material hit))
                     + green (m_Diffuse (material hit))) / 3"
  shows "Shade_with cfg trace hit scn max_tree_depth st =
           and_then (if contriD + contriS > u
                     then Shade_indirect cfg trace hit scn num_reb u contriD contriS
                            (Unit (point (geom hit) - geom_origin (geom hit))) (st\<lparr>gen := g3\<rparr>)
                     else (Some 0, st\<lparr>gen := g3\<rparr>))
             (\<lambda>indirect st'. (Some (direct lit + indirect), st'))"
  using assms(1) by (simp add: Shade_with_def Let_def assms(2-6))

lemma Shade_indirect_steps:
  assumes "SampleProjectedHemisphere (normal (geom hit)) (gen st) = (smp, gnext)"
  shows "Shade_indirect cfg trace hit scn num_reb u contriD contriS V st =
           and_then (indirect_diffuse cfg trace hit scn num_reb u contriD smp (st\<lparr>gen := gnext\<rparr>))
             (\<lambda>indirect_diff st2.
                and_then (indirect_specular cfg trace hit scn num_reb u contriD contriS V st2)
                  (\<lambda>indirect_spec st3. (Some (indirect_diff + indirect_spec), st3)))"
  by (simp add: Shade_indirect_def assms)

lemma indirect_diffuse_taken:
  assumes "u < contriD"
    and "trace \<lparr>origin = point (geom hit) + Epsilon cfg *\<^sub>R normal (geom hit),
                direction = sample_P smp, no_emitters = False\<rparr> scn num_reb st = (Some c, stnext)"
  shows "indirect_diffuse cfg trace hit scn num_reb u contriD smp st
           = (Some (((1 / Pi) *\<^sub>R (sample_w smp *\<^sub>R m_Diffuse (material hit))) * c), stnext)"
  using assms(1) by (simp add: indirect_diffuse_def Let_def assms(2))

lemma indirect_specular_skipped:
  assumes "m_Phong_exp (material hit) \<le> 0"
  shows "indirect_specular cfg trace hit scn num_reb u contriD contriS V st = (Some 0, st)"
proof -
  from assms have "\<not> (m_Phong_exp (material hit) > 0
               \<and> (if contriD \<le> u then 1 else 0) < contriD + contriS)"
    by simp
  then show ?thesis unfolding indirect_specular_def by (rule if_not_P)
qed

lemma Shade_with_grows:
  assumes tr: "sound_tracer trace"
  shows "grows st (snd (Shade_with cfg trace hit scn max_tree_depth st))"
proof (cases "Emitter (material hit)")
  case True
  then show ?thesis by (simp add: Shade_with_def grows_refl)
next
  case False
  obtain num_reb g1 where rr: "russian_roulette max_tree_depth 100 (gen st) = (num_reb, g1)"
    by (cases "russian_roulette max_tree_depth 100 (gen st)")
  obtain u g2 where ru: "rand 0 1 g1 = (u, g2)"
    by (cases "rand 0 1 g1")
  obtain lit g3 where dl: "direct_loop hit scn
           \<lparr>origin = point (geom hit) + Epsilon cfg *\<^sub>R normal (geom hit), direction = 0,
             no_emitters = False\<rparr>
           (Unit (point (geom hit) - geom_origin (geom hit))) 0 (objects scn)
           (\<lparr>diffuse = 0, specular = 0, direct = 0\<rparr>, g2) = (lit, g3)"
    by (cases "direct_loop hit scn
           \<lparr>origin = point (geom hit) + Epsilon cfg *\<^sub>R normal (geom hit), direction = 0,
             no_emitters = False\<rparr>
           (Unit (point (geom hit) - geom_origin (geom hit))) 0 (objects scn)
           (\<lparr>diffuse = 0, specular = 0, direct = 0\<rparr>, g2)")
  define contriS where "contriS = (blue (m_Specular (material hit)) + red (m_Specular (material hit))
                             + green (m_Specular (material hit))) / 3"
  define contriD where "contriD = (blue (m_Diffuse (material hit)) + red (m_Diffuse (material hit))
                             + green (m_Diffuse (material hit))) / 3"
  define inner where "inner = (if contriD + contriS > u
      then Shade_indirect cfg trace hit scn num_reb u contriD contriS
             (Unit (point (geom hit) - geom_origin (geom hit))) (st\<lparr>gen := g3\<rparr>)
      else (Some 0, st\<lparr>gen := g3\<rparr>))"
  have eq: "Shade_with cfg trace hit scn max_tree_depth st
              = and_then inner (\<lambda>indirect st'. (Some (direct lit + indirect), st'))"
    unfolding inner_def by (rule Shade_with_steps [OF False rr ru dl contriS_def contriD_def])
  have g: "grows st (st\<lparr>gen := g3\<rparr>)" by (rule grows_same) simp
  have "grows (st\<lparr>gen := g3\<rparr>) (snd inner)"
    unfolding inner_def by (simp add: Shade_indirect_grows [OF tr] grows_refl)
  with g have "grows st (snd inner)" by (rule grows_trans)
  then have "grows st (snd (and_then inner (\<lambda>indirect st'. (Some (direct lit + indirect), st'))))"
    by (rule grows_and_then) (simp add: grows_refl)
  then show ?thesis by (simp only: eq)
qed

text \<open>A call of \<^verbatim>\<open>Trace\<close> for a ray that sees emitters, whether it returns or is cut off.\<close>

lemma Trace_grows:
  "\<not> no_emitters ray \<Longrightarrow> grows st (snd (Trace n cfg ray scn max_tree_depth st))"
proof (induction n arbitrary: ray scn max_tree_depth st)
  case 0
  then have "sound_event (TraceCall ray max_tree_depth)" by (simp add: sound_event_def)
  then show ?case by (simp add: grows_log_event)
next
  case (Suc n)
  define st1 where "st1 = log_event (TraceCall ray max_tree_depth) st"
  have "sound_event (TraceCall ray max_tree_depth)"
    using Suc.prems(1) by (simp add: sound_event_def)
  then have g1: "grows st st1" unfolding st1_def by (rule grows_log_event)
  have tr: "sound_tracer (Trace n cfg)"
    unfolding sound_tracer_def using Suc.IH by blast
  have "grows st1 (snd (Shade_with cfg (Trace n cfg)
           (snd (Cast ray scn (fresh_hit (Infinity cfg)) None)) scn (max_tree_depth - 1) st1))"
    by (rule Shade_with_grows [OF tr])
  with Suc.prems have "grows st1 (snd (Trace (Suc n) cfg ray scn max_tree_depth st))"
    by (simp add: Let_def split_def st1_def grows_refl)
  with g1 show ?case by (rule grows_trans)
qed

lemma sound_tracer_Trace: "sound_tracer (Trace n cfg)"
  unfolding sound_tracer_def using Trace_grows by blast

text \<open>
  Claim C8. For every hit whose material has a Phong exponent \<open>\<le> 0\<close>, every scene, depth,
  recursion bound and sequence of random draws: \<^verbatim>\<open>Shade\<close> does not enter its specular indirect
  branch for that hit, the branch in which the specular lobe is sampled and the specular ray
  traced.
\<close>

theorem Shade_no_specular_branch:
  assumes "m_Phong_exp (material hit) \<le> 0"
  shows "\<exists>new. events (snd (Shade n cfg hit scn max_tree_depth st)) = events st @ new
           \<and> SpecularBranch hit \<notin> set new"
proof -
  have "grows st (snd (Shade n cfg hit scn max_tree_depth st))"
    unfolding Shade_def by (rule Shade_with_grows [OF sound_tracer_Trace])
  then obtain new where new: "events (snd (Shade n cfg hit scn max_tree_depth st)) = events st @ new"
    "list_all sound_event new"
    by (rule grows_new_events)
  have "SpecularBranch hit \<notin> set new"
  proof
    assume "SpecularBranch hit \<in> set new"
    with new(2) have "sound_event (SpecularBranch hit)" by (simp add: list_all_iff)
    with assms show False by (simp add: sound_event_def)
  qed
  with new(1) show ?thesis by blast
qed

lemma dull_roulette: "russian_roulette 0 100 (gen run1)
  = (1, \<lparr>draws = (\<lambda>i. if i < 2 then 99 else 0), pos = 2\<rparr>)"
  by (simp add: russian_roulette.simps Let_def rand_def run1_def)

lemma dull_draw: "rand 0 1 \<lparr>draws = (\<lambda>i. if i < 2 then 99 else 0), pos = 2\<rparr>
   = (0, \<lparr>draws = (\<lambda>i. if i < 2 then 99 else 0), pos = 3\<rparr>)"
  by (simp add: rand_def)

lemma dull_direct: "direct_loop dull_hit room
           \<lparr>origin = point (geom dull_hit) + Epsilon cfg0 *\<^sub>R normal (geom dull_hit), direction = 0,
             no_emitters = False\<rparr>
           (Unit (point (geom dull_hit) - geom_origin (geom dull_hit))) 0 (objects room)
           (\<lparr>diffuse = 0, specular = 0, direct = 0\<rparr>, g)
    = (\<lparr>diffuse = Color (3/20) (3/20) (3/20), specular = 0, direct = Color (7/20) (7/20) (7/20)\<rparr>, g)"
  by (simp add: direct_step_def room_def plane_def matte_def lamp_def dull_hit_def floor_hit_def
      cfg0_def Cast_def Cast_step_def fresh_hit_def Let_def vec_simps color_simps sqrt_25)

lemma dull_hemisphere:
  "SampleProjectedHemisphere (normal (geom dull_hit)) \<lparr>draws = (\<lambda>i. if i < 2 then 99 else 0), pos = 3\<rparr>
   = (\<lparr>sample_P = Vec3 0 0 1, sample_w = Pi\<rparr>, \<lparr>draws = (\<lambda>i. if i < 2 then 99 else 0), pos = 5\<rparr>)"
  by (simp add: SampleProjectedHemisphere_def rand_def Let_def vec_simps Pi_def dull_hit_def floor_hit_def)

lemma dull_bounce:
  "Trace (Suc 0) cfg0 \<lparr>origin = point (geom dull_hit) + Epsilon cfg0 *\<^sub>R normal (geom dull_hit),
         direction = Vec3 0 0 1, no_emitters = False\<rparr> room 1 st
     = (Some (Color (1/2) (1/2) (1/2)),
        log_event (TraceCall \<lparr>origin = Vec3 0 0 (1/1000), direction = Vec3 0 0 1, no_emitters = False\<rparr> 1) st)"
  by (simp add: Shade_with_def room_def plane_def matte_def lamp_def dull_hit_def floor_hit_def
      cfg0_def Cast_def Cast_step_def fresh_hit_def Let_def vec_simps color_simps)

text \<open>
  Witness for C8: the floor with Phong exponent 0 and the draw \<open>u = 0\<close>. \<^verbatim>\<open>Shade\<close> enters
  the indirect part, traces the diffuse bounce ray (which meets the ceiling) and returns
  without a specular branch.
\<close>

theorem Shade_no_specular_branch_witness:
  "m_Phong_exp (material dull_hit) \<le> 0
   \<and> Shade (Suc 0) cfg0 dull_hit room 0 run1
       = (Some (Color (19/40) (19/40) (19/40)),
          \<lparr>gen = \<lparr>draws = (\<lambda>i. if i < 2 then 99 else 0), pos = 5\<rparr>,
            events = [TraceCall \<lparr>origin = Vec3 0 0 (1/1000), direction = Vec3 0 0 1,
                                  no_emitters = False\<rparr> 1]\<rparr>)
   \<and> (\<exists>new. [TraceCall \<lparr>origin = Vec3 0 0 (1/1000), direction = Vec3 0 0 1,
                              no_emitters = False\<rparr> 1] = events run1 @ new
          \<and> SpecularBranch dull_hit \<notin> set new)"
proof -
  have m: "\<not> Emitter (material dull_hit)" "m_Phong_exp (material dull_hit) \<le> 0"
    "m_Diffuse (material dull_hit) = Color (1/4) (1/4) (1/4)"
    "m_Specular (material dull_hit) = Color (1/4) (1/4) (1/4)"
    by (simp_all add: dull_hit_def floor_hit_def matte_def)
  have diffuse_part: "indirect_diffuse cfg0 (Trace (Suc 0) cfg0) dull_hit room 1 0 (1/4)
            \<lparr>sample_P = Vec3 0 0 1, sample_w = Pi\<rparr>
            (run1\<lparr>gen := \<lparr>draws = (\<lambda>i. if i < 2 then 99 else 0), pos = 5\<rparr>\<rparr>)
        = (Some (((1 / Pi) *\<^sub>R (Pi *\<^sub>R Color (1/4) (1/4) (1/4))) * Color (1/2) (1/2) (1/2)),
           log_event (TraceCall \<lparr>origin = Vec3 0 0 (1/1000), direction = Vec3 0 0 1, no_emitters = False\<rparr> 1)
             (run1\<lparr>gen := \<lparr>draws = (\<lambda>i. if i < 2 then 99 else 0), pos = 5\<rparr>\<rparr>))"
    by (subst indirect_diffuse_taken [where c = "Color (1/2) (1/2) (1/2)"
          and stnext = "log_event (TraceCall \<lparr>origin = Vec3 0 0 (1/1000), direction = Vec3 0 0 1, no_emitters = False\<rparr> 1)
             (run1\<lparr>gen := \<lparr>draws = (\<lambda>i. if i < 2 then 99 else 0), pos = 5\<rparr>\<rparr>)"])
       (simp_all add: m dull_bounce del: Trace.simps)
  have "Shade (Suc 0) cfg0 dull_hit room 0 run1
          = and_then (Shade_indirect cfg0 (Trace (Suc 0) cfg0) dull_hit room 1 0 (1/4) (1/4)
              (Unit (point (geom dull_hit) - geom_origin (geom dull_hit)))
              (run1\<lparr>gen := \<lparr>draws = (\<lambda>i. if i < 2 then 99 else 0), pos = 3\<rparr>\<rparr>))
              (\<lambda>indirect st'. (Some (Color (7/20) (7/20) (7/20) + indirect), st'))"
    unfolding Shade_def
    by (subst Shade_with_steps [OF m(1) dull_roulette dull_draw dull_direct refl refl]) (simp add: m)
  also have "Shade_indirect cfg0 (Trace (Suc 0) cfg0) dull_hit room 1 0 (1/4) (1/4)
              (Unit (point (geom dull_hit) - geom_origin (geom dull_hit)))
              (run1\<lparr>gen := \<lparr>draws = (\<lambda>i. if i < 2 then 99 else 0), pos = 3\<rparr>\<rparr>)
       = (Some (((1 / Pi) *\<^sub>R (Pi *\<^sub>R Color (1/4) (1/4) (1/4))) * Color (1/2) (1/2) (1/2) + 0),
           log_event (TraceCall \<lparr>origin = Vec3 0 0 (1/1000), direction = Vec3 0 0 1, no_emitters = False\<rparr> 1)
             (run1\<lparr>gen := \<lparr>draws = (\<lambda>i. if i < 2 then 99 else 0), pos = 5\<rparr>\<rparr>))"
    by (subst Shade_indirect_steps [where smp = "\<lparr>sample_P = Vec3 0 0 1, sample_w = Pi\<rparr>"
          and gnext = "\<lparr>draws = (\<lambda>i. if i < 2 then 99 else 0), pos = 5\<rparr>"])
       (simp_all add: dull_hemisphere diffuse_part indirect_specular_skipped [OF m(2)] del: Trace.simps)
  finally have run: "Shade (Suc 0) cfg0 dull_hit room 0 run1
     = (Some (Color (19/40) (19/40) (19/40)),
        \<lparr>gen = \<lparr>draws = (\<lambda>i. if i < 2 then 99 else 0), pos = 5\<rparr>,
          events = [TraceCall \<lparr>origin = Vec3 0 0 (1/1000), direction = Vec3 0 0 1, no_emitters = False\<rparr> 1]\<rparr>)"
    by (simp add: color_simps Pi_def log_event_def run1_def)
  from Shade_no_specular_branch [OF m(2), of "Suc 0" cfg0 room 0 run1] m(2) run
  show ?thesis by simp
qed

section \<open>Properties of cast_line\<close>

lemma sample_loop_grows:
  "\<not> no_emitters ray
   \<Longrightarrow> grows st (snd (sample_loop fuel cfg scn O_raster dR dU i line k ray color st))
       \<and> (\<forall>ray' color'. fst (sample_loop fuel cfg scn O_raster dR dU i line k ray color st)
                           = Some (ray', color') \<longrightarrow> \<not> no_emitters ray')"
proof (induction k arbitrary: ray color st)
  case 0
  then show ?case by (simp add: grows_refl)
next
  case (Suc k)
  define g2 where "g2 = snd (rand 0 1 (snd (rand 0 1 (gen st))))"
  define ray1 where "ray1 = ray\<lparr>direction :=
      Unit (O_raster + (of_int i + fst (rand 0 1 (gen st)) - 0.5) *\<^sub>R dR
              - (of_int line + fst (rand 0 1 (snd (rand 0 1 (gen st)))) - 0.5) *\<^sub>R dU)\<rparr>"
  define traced where "traced = Trace fuel cfg ray1 scn tree_depth (st\<lparr>gen := g2\<rparr>)"
  have eq: "sample_loop fuel cfg scn O_raster dR dU i line (Suc k) ray color st
              = and_then traced
                  (\<lambda>c st'. sample_loop fuel cfg scn O_raster dR dU i line k ray1 (color + c) st')"
    by (simp add: Let_def split_def traced_def ray1_def g2_def)
  have ne: "\<not> no_emitters ray1" using Suc.prems by (simp add: ray1_def)
  have "grows (st\<lparr>gen := g2\<rparr>) (snd traced)" unfolding traced_def by (rule Trace_grows [OF ne])
  moreover have "grows st (st\<lparr>gen := g2\<rparr>)" by (rule grows_same) simp
  ultimately have t: "grows st (snd traced)" by (rule grows_trans [rotated])
  show ?case
  proof (cases traced)
    case (Pair answer st')
    show ?thesis
    proof (cases answer)
      case None
      with Pair t show ?thesis by (simp add: eq del: sample_loop.simps)
    next
      case (Some c)
      with Pair t Suc.IH [OF ne, of st' "color + c"] show ?thesis
        by (auto simp add: eq simp del: sample_loop.simps intro: grows_trans)
    qed
  qed
qed

lemma cast_pixel_grows:
  assumes "\<not> no_emitters ray"
  shows "grows st (snd (cast_pixel fuel cfg scn O_raster dR dU i rt ray color st))
       \<and> (\<forall>rt' ray' color'. fst (cast_pixel fuel cfg scn O_raster dR dU i rt ray color st)
                           = Some (rt', ray', color') \<longrightarrow> \<not> no_emitters ray')"
proof -
  define sampled where "sampled = sample_loop fuel cfg scn O_raster dR dU i (currentLine rt)
      (nat rays_pixel) ray color st"
  have eq: "cast_pixel fuel cfg scn O_raster dR dU i rt ray color st
              = and_then sampled
                  (\<lambda>(ray', color') st'.
                      case ToneMap ((1 / of_int rays_pixel) *\<^sub>R color') of
                        None \<Rightarrow> (None, st')
                      | Some px \<Rightarrow>
                          (Some (rt\<lparr>image_I := (image_I rt)
                                       (resolutionY rt - currentLine rt - 1 :=
                                          (image_I rt (resolutionY rt - currentLine rt - 1))(i := px))\<rparr>,
                                 ray', 0), st'))"
    unfolding cast_pixel_def sampled_def by (simp add: rays_pixel_def)
  from sample_loop_grows [OF assms, of st fuel cfg scn O_raster dR dU i "currentLine rt" "nat rays_pixel" color]
  have s: "grows st (snd sampled)"
    "\<And>ray' color'. fst sampled = Some (ray', color') \<Longrightarrow> \<not> no_emitters ray'"
    unfolding sampled_def by blast+
  show ?thesis
  proof (cases sampled)
    case (Pair answer st')
    show ?thesis
    proof (cases answer)
      case None
      with Pair s(1) show ?thesis by (simp add: eq)
    next
      case (Some rc)
      obtain ray' color' where rc: "rc = (ray', color')" by (cases rc)
      with Pair Some s(2) [of ray' color'] have "\<not> no_emitters ray'" by simp
      with Pair Some rc s(1) show ?thesis
        by (auto simp: eq split: option.splits)
    qed
  qed
qed

lemma pixel_loop_grows:
  "\<not> no_emitters ray
   \<Longrightarrow> grows st (snd (pixel_loop fuel cfg scn O_raster dR dU cols rt ray color st))"
proof (induction cols arbitrary: rt ray color st)
  case Nil
  then show ?case by (simp add: grows_refl)
next
  case (Cons i cols)
  define px where "px = cast_pixel fuel cfg scn O_raster dR dU i rt ray color st"
  from cast_pixel_grows [OF Cons.prems, of st fuel cfg scn O_raster dR dU i rt color]
  have p: "grows st (snd px)"
    "\<And>rt' ray' color'. fst px = Some (rt', ray', color') \<Longrightarrow> \<not> no_emitters ray'"
    unfolding px_def by blast+
  have "grows st (snd (and_then px
      (\<lambda>(rt', ray', color') st'. pixel_loop fuel cfg scn O_raster dR dU cols rt' ray' color' st')))"
  proof (rule grows_and_then [OF p(1)])
    fix x
    assume x: "fst px = Some x"
    obtain rt' ray' color' where "x = (rt', ray', color')" by (cases x)
    with x p(2) Cons.IH show "grows (snd px)
        (snd ((case x of (rt', ray', color') \<Rightarrow>
                 \<lambda>st'. pixel_loop fuel cfg scn O_raster dR dU cols rt' ray' color' st') (snd px)))"
      by simp
  qed
  then show ?case by (simp add: px_def)
qed

lemma cast_line_grows: "grows st (snd (cast_line fuel cfg rt world st))"
proof -
  define cam where "cam = getCamera world"
  define G where "G = Unit (lookat cam - eye cam)"
  define U where "U = Unit (orth (up cam) G)"
  define R where "R = Unit (cross G U)"
  define line where "line = pixel_loop fuel cfg (getScene world) ((vpdist cam *\<^sub>R G) - R + U)
      ((2 / of_int (resolutionX rt - 1)) *\<^sub>R R) ((2 / of_int (resolutionY rt - 1)) *\<^sub>R U)
      (map int [0..<nat (resolutionX rt)]) rt
      \<lparr>origin = eye cam, direction = 0, no_emitters = False\<rparr> 0 st"
  have "grows st (snd line)" unfolding line_def by (rule pixel_loop_grows) simp
  then have "grows st (snd (and_then line
      (\<lambda>(rt', ray', color') st'.
          (Some (if currentLine rt' + 1 = resolutionY rt'
                 then rt'\<lparr>currentLine := currentLine rt' + 1, isDone := True\<rparr>
                 else rt'\<lparr>currentLine := currentLine rt' + 1\<rparr>), st'))))"
    by (rule grows_and_then) (simp add: grows_refl split_def)
  then show ?thesis
    unfolding cast_line_def Let_def line_def cam_def G_def U_def R_def .
qed

text \<open>
  Claim C10. In every run of \<^verbatim>\<open>cast_line\<close>, complete or cut off by the recursion bound, every
  call of \<^verbatim>\<open>Trace\<close>, for a primary ray or for a bounce ray of \<^verbatim>\<open>Shade\<close> at any depth of the
  recursion, is made with a ray whose \<^verbatim>\<open>no_emitters\<close> is false, and \<^verbatim>\<open>Trace\<close> never takes its
  branch that answers black for an emitter.
\<close>

theorem cast_line_rays_see_emitters:
  "\<exists>new. events (snd (cast_line fuel cfg rt world st)) = events st @ new
      \<and> (\<forall>r d. TraceCall r d \<in> set new \<longrightarrow> \<not> no_emitters r)
      \<and> (\<forall>r. Suppressed r \<notin> set new)"
proof -
  from cast_line_grows [of st fuel cfg rt world]
  obtain new where new: "events (snd (cast_line fuel cfg rt world st)) = events st @ new"
    "list_all sound_event new"
    by (rule grows_new_events)
  have "\<not> no_emitters r" if "TraceCall r d \<in> set new" for r d
  proof -
    from that new(2) have "sound_event (TraceCall r d)" by (simp add: list_all_iff)
    then show ?thesis by (simp add: sound_event_def)
  qed
  moreover have "Suppressed r \<notin> set new" for r
  proof
    assume "Suppressed r \<in> set new"
    with new(2) have "sound_event (Suppressed r)" by (simp add: list_all_iff)
    then show False by (simp add: sound_event_def)
  qed
  ultimately show ?thesis using new(1) by blast
qed

text \<open>In a world without objects and with a black background every pixel is computed.\<close>

lemma Trace_void:
  "objects scn = [] \<Longrightarrow> Trace (Suc n) cfg ray scn max_tree_depth st
     = (Some (bgcolor scn), log_event (TraceCall ray max_tree_depth) st)"
  by (simp add: Let_def Cast_def)

lemma sample_loop_void:
  "objects scn = [] \<Longrightarrow> bgcolor scn = 0
   \<Longrightarrow> \<exists>ray'. fst (sample_loop (Suc n) cfg scn O_raster dR dU i line k ray 0 st) = Some (ray', 0)"
proof (induction k arbitrary: ray st)
  case 0
  then show ?case by simp
next
  case (Suc k)
  have z: "(0 :: Color) + 0 = 0" by (simp add: color_simps)
  show ?case
    using Suc.IH [OF Suc.prems] Suc.prems
    by (simp add: Let_def split_def Trace_void z del: Trace.simps)
qed

lemma ToneMap_black: "ToneMap (k *\<^sub>R 0) = Some \<lparr>pixel_r = 0, pixel_g = 0, pixel_b = 0\<rparr>"
  by (simp add: ToneMap_def color_simps int_of_floor_def to_channel_def)

lemma cast_pixel_void:
  assumes "objects scn = []" "bgcolor scn = 0"
  shows "\<exists>rt' ray'. fst (cast_pixel (Suc n) cfg scn O_raster dR dU i rt ray 0 st)
                     = Some (rt', ray', 0)"
proof -
  from sample_loop_void [OF assms, of n cfg O_raster dR dU i "currentLine rt" "nat rays_pixel" ray st]
  obtain ray' where
    "fst (sample_loop (Suc n) cfg scn O_raster dR dU i (currentLine rt) (nat rays_pixel) ray 0 st)
       = Some (ray', 0)"
    by blast
  then obtain st' where
    "sample_loop (Suc n) cfg scn O_raster dR dU i (currentLine rt) (nat rays_pixel) ray 0 st
       = (Some (ray', 0), st')"
    by (cases "sample_loop (Suc n) cfg scn O_raster dR dU i (currentLine rt) (nat rays_pixel) ray 0 st")
      simp
  then show ?thesis
    by (simp add: cast_pixel_def rays_pixel_def ToneMap_black del: sample_loop.simps)
qed

lemma pixel_loop_void:
  assumes "objects scn = []" "bgcolor scn = 0"
  shows "\<exists>rt' ray'. fst (pixel_loop (Suc n) cfg scn O_raster dR dU cols rt ray 0 st)
                     = Some (rt', ray', 0)"
proof (induction cols arbitrary: rt ray st)
  case Nil
  show ?case by simp
next
  case (Cons i cols)
  from cast_pixel_void [OF assms, of n cfg O_raster dR dU i rt ray st]
  obtain rt1 ray1 where
    "fst (cast_pixel (Suc n) cfg scn O_raster dR dU i rt ray 0 st) = Some (rt1, ray1, 0)"
    by blast
  then obtain st1 where
    "cast_pixel (Suc n) cfg scn O_raster dR dU i rt ray 0 st = (Some (rt1, ray1, 0), st1)"
    by (cases "cast_pixel (Suc n) cfg scn O_raster dR dU i rt ray 0 st") simp
  with Cons [of rt1 ray1 st1] show ?case by simp
qed

lemma cast_line_void:
  assumes "objects (getScene world) = []" "bgcolor (getScene world) = 0"
  shows "fst (cast_line (Suc n) cfg rt world st) \<noteq> None"
proof -
  define cam where "cam = getCamera world"
  define G where "G = Unit (lookat cam - eye cam)"
  define U where "U = Unit (orth (up cam) G)"
  define R where "R = Unit (cross G U)"
  define line where "line = pixel_loop (Suc n) cfg (getScene world) ((vpdist cam *\<^sub>R G) - R + U)
      ((2 / of_int (resolutionX rt - 1)) *\<^sub>R R) ((2 / of_int (resolutionY rt - 1)) *\<^sub>R U)
      (map int [0..<nat (resolutionX rt)]) rt
      \<lparr>origin = eye cam, direction = 0, no_emitters = False\<rparr> 0 st"
  from pixel_loop_void [OF assms] obtain rt1 ray1 where "fst line = Some (rt1, ray1, 0)"
    unfolding line_def by blast
  then obtain st1 where "line = (Some (rt1, ray1, 0), st1)" by (cases line) simp
  then have "fst (and_then line
      (\<lambda>(rt', ray', color') st'.
          (Some (if currentLine rt' + 1 = resolutionY rt'
                 then rt'\<lparr>currentLine := currentLine rt' + 1, isDone := True\<rparr>
                 else rt'\<lparr>currentLine := currentLine rt' + 1\<rparr>), st'))) \<noteq> None"
    by simp
  then show ?thesis
    unfolding cast_line_def Let_def line_def cam_def G_def U_def R_def .
qed

text \<open>
  Witness for C10: the first line of a picture two pixels wide of the world without objects
  is computed, and its run has made no call with \<^verbatim>\<open>no_emitters\<close> and has not answered black.
\<close>

theorem cast_line_rays_see_emitters_witness:
  "fst (cast_line (Suc 0) cfg0 tracer0 void_world run0) \<noteq> None
   \<and> (\<exists>new. events (snd (cast_line (Suc 0) cfg0 tracer0 void_world run0)) = events run0 @ new
           \<and> (\<forall>r d. TraceCall r d \<in> set new \<longrightarrow> \<not> no_emitters r)
           \<and> (\<forall>r. Suppressed r \<notin> set new))"
proof -
  have "objects (getScene void_world) = []" "bgcolor (getScene void_world) = 0"
    by (simp_all add: void_world_def zero_Color_def)
  then have "fst (cast_line (Suc 0) cfg0 tracer0 void_world run0) \<noteq> None"
    by (rule cast_line_void)
  with cast_line_rays_see_emitters [of "Suc 0" cfg0 tracer0 void_world run0] show ?thesis
    by blast
qed

end
